theory Spec2Isabelle
  imports Main "HOL-Library.AList"
begin

section \<open>Python values shared by the two modules\<close>

text \<open>
  The name of a node in a builder: the name given by the caller, or one that the builder
  generates from its counter (the scheme of the generated names is not part of the
  modelled files).
\<close>

datatype node_name = Name string | AutoName nat

text \<open>
  The exceptions of the modelled code.  \<open>KeyError\<close> carries the offending dataset key,
  which \<open>Model.prepare_datasets\<close> formats into its message; \<open>NodeKeyError\<close> is the
  \<open>KeyError\<close> of a lookup in a builder's dictionary of nodes.  \<open>RangeError\<close> to
  \<open>CycleError\<close> are the construction errors of the builder layer.  \<open>InvalidReference\<close>
  stands for the use of an object that is not in the store, which no Python program can
  do; it makes the operations on the store total.
\<close>

datatype error =
    NotImplementedError
  | TypeError
  | ValueError
  | IndexError
  | AttributeError
  | KeyError string
  | NodeKeyError node_name
  | RangeError
  | DuplicateDeclarationError
  | WiringError
  | UnresolvedSlotError
  | CycleError
  | InvalidReference

text \<open>
  A Python \<open>dict\<close> is an association list in insertion order with distinct keys.
  \<open>d[k] = v\<close> is \<open>AList.update k v d\<close>: an existing key keeps its position and gets the
  new value, a new key goes to the end.  \<open>dict(pairs)\<close> and \<open>d.update(pairs)\<close> store the
  pairs one after the other.
\<close>

definition dict_update :: "('k \<times> 'v) list \<Rightarrow> ('k \<times> 'v) list \<Rightarrow> ('k \<times> 'v) list" where
  "dict_update d kvs = fold (\<lambda>kv acc. AList.update (fst kv) (snd kv) acc) kvs d"

definition dict_of :: "('k \<times> 'v) list \<Rightarrow> ('k \<times> 'v) list" where
  "dict_of kvs = dict_update [] kvs"

section \<open>models.py: \<open>Model.prepare_datasets\<close>\<close>

text \<open>\<open>key.split('_')\<close>: the pieces between the separators; never an empty list.\<close>

fun split_char :: "char \<Rightarrow> string \<Rightarrow> string list" where
  "split_char c [] = [[]]"
| "split_char c (x # xs) =
     (if x = c then [] # split_char c xs
      else (case split_char c xs of
              [] \<Rightarrow> [[x]]
            | w # ws \<Rightarrow> (x # w) # ws))"

text \<open>\<open>sep.join(pieces)\<close>.\<close>

fun join_str :: "string \<Rightarrow> string list \<Rightarrow> string" where
  "join_str sep [] = []"
| "join_str sep [w] = w"
| "join_str sep (w # v # ws) = w @ sep @ join_str sep (v # ws)"

text \<open>
  The body of the \<open>for key in dataset\<close> loop of \<open>prepare_datasets\<close>, on the three
  dictionaries it fills.  \<open>key.split('_')[0]\<close> would raise \<open>IndexError\<close> on an empty list.
\<close>

fun prepare_datasets_loop ::
  "string \<Rightarrow> (string \<times> 'v) list \<Rightarrow>
   (string \<times> 'v) list \<times> (string \<times> 'v) list \<times> (string \<times> 'v) list \<Rightarrow>
   error + ((string \<times> 'v) list \<times> (string \<times> 'v) list \<times> (string \<times> 'v) list)" where
  "prepare_datasets_loop scope [] acc = Inr acc"
| "prepare_datasets_loop scope ((key, val) # rest) (train_dataset, valid_dataset, test_dataset) =
     (case split_char (CHR ''_'') key of
        [] \<Rightarrow> Inl IndexError
      | d_set # parts \<Rightarrow>
          (let inode = join_str ''_'' parts in
           if d_set = ''train'' then
             prepare_datasets_loop scope rest
               (AList.update (scope @ ''/'' @ inode @ ''_main:0'') val train_dataset,
                valid_dataset, test_dataset)
           else if d_set = ''valid'' then
             prepare_datasets_loop scope rest
               (train_dataset,
                AList.update (scope @ ''/'' @ inode @ ''_main:0'') val valid_dataset,
                test_dataset)
           else if d_set = ''test'' then
             prepare_datasets_loop scope rest
               (train_dataset, valid_dataset,
                AList.update (scope @ ''/'' @ inode @ ''_main:0'') val test_dataset)
           else Inl (KeyError key)))"

text \<open>
  \<open>Model.prepare_datasets(dataset)\<close>, with \<open>self.main_scope\<close> as the first argument.
  The result is the dictionary with the keys \<open>'train'\<close>, \<open>'valid'\<close> and \<open>'test'\<close>.
\<close>

definition prepare_datasets ::
  "string \<Rightarrow> (string \<times> 'v) list \<Rightarrow> error + (string \<times> (string \<times> 'v) list) list" where
  "prepare_datasets scope dataset =
     (case prepare_datasets_loop scope dataset ([], [], []) of
        Inl e \<Rightarrow> Inl e
      | Inr (train_dataset, valid_dataset, test_dataset) \<Rightarrow>
          Inr [(''train'', train_dataset), (''valid'', valid_dataset), (''test'', test_dataset)])"

subsection \<open>The description of the result in the words of the specification\<close>

text \<open>The prefix of a key: the substring before the first underscore.\<close>

definition key_prefix :: "string \<Rightarrow> string" where
  "key_prefix key = takeWhile (\<lambda>c. c \<noteq> CHR ''_'') key"

text \<open>The node name of a key \<open>p_inode\<close>: what follows the first underscore.\<close>

definition key_inode :: "string \<Rightarrow> string" where
  "key_inode key = drop (Suc (length (key_prefix key))) key"

definition allowed_prefix :: "string \<Rightarrow> bool" where
  "allowed_prefix p = (p = ''train'' \<or> p = ''valid'' \<or> p = ''test'')"

text \<open>
  The entries of the dataset whose prefix is \<open>p\<close>, in the order of the dataset, each
  under its new name \<open>scope + '/' + inode + '_main:0'\<close>.
\<close>

definition placed :: "string \<Rightarrow> string \<Rightarrow> (string \<times> 'v) list \<Rightarrow> (string \<times> 'v) list" where
  "placed scope p dataset =
     map (\<lambda>kv. (scope @ ''/'' @ key_inode (fst kv) @ ''_main:0'', snd kv))
       (filter (\<lambda>kv. key_prefix (fst kv) = p) dataset)"

section \<open>seq\_cells.py: calling a cell\<close>

text \<open>
  The values a cell is called with.  \<open>Tensor\<close> is a tensor of the graph, \<open>PyNone\<close> is
  \<open>None\<close>, \<open>PySeq\<close> is a tuple or a list, \<open>PyDict\<close> is a dictionary with integer keys;
  \<open>PyInt\<close> is there because iterating over a dictionary yields its keys.
\<close>

datatype 't pyval =
    PyNone
  | PyInt nat
  | Tensor 't
  | PySeq "'t pyval list"
  | PyDict "(nat \<times> 't pyval) list"

text \<open>\<open>len(v)\<close>: a \<open>TypeError\<close>, and nothing else, for a value without a length.\<close>

definition py_len :: "'t pyval \<Rightarrow> error + nat" where
  "py_len v =
     (case v of
        PySeq vs \<Rightarrow> Inr (length vs)
      | PyDict d \<Rightarrow> Inr (length d)
      | _ \<Rightarrow> Inl TypeError)"

text \<open>
  The elements that iterating over \<open>v\<close> yields: a \<open>TypeError\<close>, and nothing else, for
  a value that is not iterable (a graph tensor, \<open>None\<close>, an integer).
\<close>

definition py_iter :: "'t pyval \<Rightarrow> error + 't pyval list" where
  "py_iter v =
     (case v of
        PySeq vs \<Rightarrow> Inr vs
      | PyDict d \<Rightarrow> Inr (map (\<lambda>kv. PyInt (fst kv)) d)
      | _ \<Rightarrow> Inl TypeError)"

text \<open>
  Lines 140 to 153 of \<open>TwoEncodersCell.__call__\<close>: the dictionary from islot to tensor
  that is handed to the encoder.  Both \<open>except TypeError\<close> clauses catch the only error
  that \<open>len\<close> and \<open>enumerate\<close> raise; \<open>dict(enumerate(state))\<close> is outside the \<open>try\<close>
  blocks.
\<close>

definition TwoEncodersCell_islot_to_itensor ::
  "'t pyval \<Rightarrow> 't pyval \<Rightarrow> error + (nat \<times> 't pyval) list" where
  "TwoEncodersCell_islot_to_itensor inputs state =
     (let (num_init_states, state') =
            (case py_len state of
               Inr n \<Rightarrow> (n, state)
             | Inl _ \<Rightarrow> (1, PySeq [state]))
      in case py_iter state' of
           Inl e \<Rightarrow> Inl e
         | Inr elems \<Rightarrow>
             (let islot_states = dict_of (enumerate 0 elems) in
              case py_iter inputs of
                Inr xs \<Rightarrow>
                  Inr (dict_update islot_states (dict_of (enumerate num_init_states xs)))
              | Inl _ \<Rightarrow>
                  Inr (dict_update islot_states [(num_init_states, inputs)])))"

text \<open>
  \<open>output, _ = result\<close>: the result is iterated over; anything but two elements is a
  \<open>ValueError\<close>.
\<close>

definition unpack_pair :: "'t pyval \<Rightarrow> error + ('t pyval \<times> 't pyval)" where
  "unpack_pair result =
     (case py_iter result of
        Inl e \<Rightarrow> Inl e
      | Inr vs \<Rightarrow>
          (case vs of
             [a, b] \<Rightarrow> Inr (a, b)
           | _ \<Rightarrow> Inl ValueError))"

text \<open>
  \<open>TwoEncodersCell.__call__(inputs, state)\<close>.  The call of the custom node
  \<open>self.encoder(islot_to_itensor=...)\<close> belongs to the builder layer and evaluates tensors;
  it is the parameter \<open>encoder_call\<close>.
\<close>

definition TwoEncodersCell_call ::
  "((nat \<times> 't pyval) list \<Rightarrow> error + 't pyval) \<Rightarrow> 't pyval \<Rightarrow> 't pyval \<Rightarrow>
   error + ('t pyval \<times> 't pyval)" where
  "TwoEncodersCell_call encoder_call inputs state =
     (case TwoEncodersCell_islot_to_itensor inputs state of
        Inl e \<Rightarrow> Inl e
      | Inr islot_to_itensor \<Rightarrow>
          (case encoder_call islot_to_itensor of
             Inl e \<Rightarrow> Inl e
           | Inr result \<Rightarrow>
               (case unpack_pair result of
                  Inl e \<Rightarrow> Inl e
                | Inr (out, _) \<Rightarrow> Inr (out, out))))"

text \<open>
  \<open>NormalTriLCell.__call__(inputs=None, islot_to_itensor=None)\<close>.  A driver that calls
  the cell as \<open>cell(inputs, state)\<close> binds the state to \<open>islot_to_itensor\<close>.  The two
  arguments go to the encoder as they are; the call of the node is the parameter
  \<open>encoder_call\<close>.
\<close>

definition NormalTriLCell_call ::
  "('t pyval \<Rightarrow> 't pyval \<Rightarrow> error + 'o) \<Rightarrow> 't pyval \<Rightarrow> 't pyval \<Rightarrow> error + ('o \<times> 'o)" where
  "NormalTriLCell_call encoder_call inputs islot_to_itensor =
     (case encoder_call inputs islot_to_itensor of
        Inl e \<Rightarrow> Inl e
      | Inr out \<Rightarrow> Inr (out, out))"

subsection \<open>The invocation protocol in the words of the specification\<close>

text \<open>
  Arity normalisation: a value that is not a sequence is wrapped as a single-element
  sequence.
\<close>

definition as_sequence :: "'t pyval \<Rightarrow> 't pyval list" where
  "as_sequence v = (case py_iter v of Inr vs \<Rightarrow> vs | Inl _ \<Rightarrow> [v])"

text \<open>
  The mapping from slot index to tensor: the state components from index 0, then the
  inputs from the index after the last state index.
\<close>

definition states_then_inputs :: "'t pyval \<Rightarrow> 't pyval \<Rightarrow> (nat \<times> 't pyval) list" where
  "states_then_inputs inputs state = enumerate 0 (as_sequence state @ as_sequence inputs)"

section \<open>The builder layer, as far as the cells use it\<close>

text \<open>
  \<open>StaticBuilder\<close>, its nodes and \<open>CustomNode\<close> are imported by seq\_cells.py and are not
  among the modelled files; this section follows the specification (sections 3, 4.1 to
  4.3 and 7).  A node records the class it was created with, its state sizes, the
  numbers of its islots and oslots and its directives.
\<close>

datatype node_class = NormalInputNode | NormalTriLNode | DefaultInnerNode

record node =
  n_class :: node_class
  n_state_sizes :: "nat list list"
  n_num_inputs :: nat
  n_num_outputs :: nat
  n_directives :: "(string \<times> string) list"

text \<open>A directed link from an oslot of one inner node to an islot of another.\<close>

record link =
  l_src :: node_name
  l_oslot :: nat
  l_dst :: node_name
  l_islot :: nat

text \<open>
  Modelled from the spec: \<open>CustomNode\<close>, a node that owns an internal builder (its inner
  nodes, the counter of their generated names and the links between them) and the
  declarations that alias an external islot or oslot to a slot of an inner node.
\<close>

record custom_node =
  c_num_inputs :: nat
  c_num_outputs :: nat
  c_nodes :: "(node_name \<times> node) list"
  c_counter :: nat
  c_links :: "link list"
  c_islot_decl :: "(nat \<times> node_name \<times> nat) list"
  c_oslot_decl :: "(nat \<times> node_name \<times> nat) list"
  c_committed :: bool

datatype gnode = PlainNode node | CustomNode custom_node

text \<open>
  Modelled from the spec: a builder has a scope label, a dictionary from node name to
  node in insertion order, and a counter for generated node names.
\<close>

record builder =
  b_scope :: string
  b_nodes :: "(node_name \<times> gnode) list"
  b_counter :: nat

text \<open>
  Builders are objects that several owners may refer to: they live in a store, and a
  reference to a builder is its index in the store.  A custom node is referred to by
  the builder that holds it and its name there.
\<close>

type_synonym heap = "builder list"

type_synonym node_ref = "nat \<times> node_name"

text \<open>\<open>StaticBuilder(scope=...)\<close>: a new, empty builder; the result is its reference.\<close>

definition StaticBuilder :: "string \<Rightarrow> heap \<Rightarrow> nat \<times> heap" where
  "StaticBuilder scope h = (length h, h @ [\<lparr>b_scope = scope, b_nodes = [], b_counter = 0\<rparr>])"

text \<open>
  Modelled from the spec: a node made by \<open>addInput\<close> or \<open>addInner\<close> has one oslot (the
  specification's inner node of shape [3] is a one-output node).
\<close>

definition plain_node ::
  "node_class \<Rightarrow> nat list list \<Rightarrow> nat \<Rightarrow> (string \<times> string) list \<Rightarrow> node" where
  "plain_node cl sizes n_in dirs =
     \<lparr>n_class = cl, n_state_sizes = sizes, n_num_inputs = n_in, n_num_outputs = 1,
      n_directives = dirs\<rparr>"

text \<open>
  Modelled from the spec: \<open>addInput(shape, node_class, **directives) -> node_name\<close> on
  the builder \<open>b\<close>.  The node has no islot; its name is generated from the counter.
\<close>

definition addInput ::
  "nat list list \<Rightarrow> node_class \<Rightarrow> (string \<times> string) list \<Rightarrow> nat \<Rightarrow> heap \<Rightarrow>
   error + (node_name \<times> heap)" where
  "addInput sizes iclass dirs b h =
     (if b < length h then
        (let bld = h ! b; nm = AutoName (b_counter bld) in
         Inr (nm,
              h[b := bld\<lparr>b_nodes := AList.update nm (PlainNode (plain_node iclass sizes 0 dirs))
                                     (b_nodes bld),
                        b_counter := Suc (b_counter bld)\<rparr>]))
      else Inl InvalidReference)"

text \<open>
  Modelled from the spec: \<open>addInner(shape, num_inputs, node_class, **directives) ->
  node_name\<close> on the builder \<open>b\<close>, with the optional \<open>name\<close> that seq\_cells.py passes.
\<close>

definition addInner ::
  "nat list list \<Rightarrow> nat \<Rightarrow> node_class \<Rightarrow> string option \<Rightarrow> (string \<times> string) list \<Rightarrow>
   nat \<Rightarrow> heap \<Rightarrow> error + (node_name \<times> heap)" where
  "addInner sizes n_in cl given dirs b h =
     (if b < length h then
        (let bld = h ! b;
             nm = (case given of Some s \<Rightarrow> Name s | None \<Rightarrow> AutoName (b_counter bld));
             cnt = (case given of Some s \<Rightarrow> b_counter bld | None \<Rightarrow> Suc (b_counter bld)) in
         Inr (nm,
              h[b := bld\<lparr>b_nodes := AList.update nm (PlainNode (plain_node cl sizes n_in dirs))
                                     (b_nodes bld),
                        b_counter := cnt\<rparr>]))
      else Inl InvalidReference)"

text \<open>
  Modelled from the spec: \<open>createCustomNode(num_inputs, num_outputs, name) ->
  CustomNode\<close> on the builder \<open>b\<close>: a custom node with an empty internal builder.
\<close>

definition createCustomNode :: "nat \<Rightarrow> nat \<Rightarrow> string \<Rightarrow> nat \<Rightarrow> heap \<Rightarrow> error + (node_ref \<times> heap)" where
  "createCustomNode n_in n_out nm b h =
     (if b < length h then
        (let bld = h ! b;
             c = \<lparr>c_num_inputs = n_in, c_num_outputs = n_out, c_nodes = [], c_counter = 0,
                  c_links = [], c_islot_decl = [], c_oslot_decl = [], c_committed = False\<rparr> in
         Inr ((b, Name nm),
              h[b := bld\<lparr>b_nodes := AList.update (Name nm) (CustomNode c) (b_nodes bld)\<rparr>]))
      else Inl InvalidReference)"

text \<open>The custom node that a reference points to.\<close>

definition get_custom :: "node_ref \<Rightarrow> heap \<Rightarrow> custom_node option" where
  "get_custom r h =
     (if fst r < length h then
        (case map_of (b_nodes (h ! fst r)) (snd r) of
           Some (CustomNode c) \<Rightarrow> Some c
         | _ \<Rightarrow> None)
      else None)"

text \<open>A method of a custom node, run on the node that the reference points to.\<close>

definition on_custom ::
  "(custom_node \<Rightarrow> error + ('r \<times> custom_node)) \<Rightarrow> node_ref \<Rightarrow> heap \<Rightarrow> error + ('r \<times> heap)" where
  "on_custom f r h =
     (case get_custom r h of
        None \<Rightarrow> Inl InvalidReference
      | Some c \<Rightarrow>
          (case f c of
             Inl e \<Rightarrow> Inl e
           | Inr (res, c') \<Rightarrow>
               Inr (res,
                    h[fst r := (h ! fst r)\<lparr>b_nodes :=
                       AList.update (snd r) (CustomNode c') (b_nodes (h ! fst r))\<rparr>])))"

text \<open>
  Modelled from the spec: \<open>addInner\<close> of a custom node adds the node to the internal
  builder and returns its generated name.
\<close>

definition cust_addInner ::
  "nat list list \<Rightarrow> nat \<Rightarrow> custom_node \<Rightarrow> error + (node_name \<times> custom_node)" where
  "cust_addInner sizes n_in c =
     (let nm = AutoName (c_counter c) in
      Inr (nm,
           c\<lparr>c_nodes := AList.update nm (plain_node DefaultInnerNode sizes n_in []) (c_nodes c),
             c_counter := Suc (c_counter c)\<rparr>))"

text \<open>
  Modelled from the spec: an islot of an inner node is occupied when a link ends there or
  an external islot is declared as its alias; an islot may not be connected twice.
\<close>

definition islot_occupied :: "custom_node \<Rightarrow> node_name \<Rightarrow> nat \<Rightarrow> bool" where
  "islot_occupied c dst islot =
     (list_ex (\<lambda>l. l_dst l = dst \<and> l_islot l = islot) (c_links c) \<or>
      list_ex (\<lambda>d. snd d = (dst, islot)) (c_islot_decl c))"

text \<open>
  Modelled from the spec: \<open>addDirectedLink(src, dst, oslot=0, islot=0)\<close> fails with a
  \<open>WiringError\<close> when the islot is occupied or a slot index is out of the declared range
  of its node; a node that the internal builder does not hold has no slot.
\<close>

definition cust_addDirectedLink ::
  "node_name \<Rightarrow> node_name \<Rightarrow> nat \<Rightarrow> nat \<Rightarrow> custom_node \<Rightarrow> error + (unit \<times> custom_node)" where
  "cust_addDirectedLink src dst oslot islot c =
     (case (map_of (c_nodes c) src, map_of (c_nodes c) dst) of
        (Some s, Some d) \<Rightarrow>
          (if n_num_outputs s \<le> oslot \<or> n_num_inputs d \<le> islot \<or> islot_occupied c dst islot
           then Inl WiringError
           else Inr ((), c\<lparr>c_links := c_links c @
                  [\<lparr>l_src = src, l_oslot = oslot, l_dst = dst, l_islot = islot\<rparr>]\<rparr>))
      | _ \<Rightarrow> Inl WiringError)"

text \<open>
  Modelled from the spec: \<open>declareIslot(islot, innernode_name, inode_islot)\<close> fails with a
  \<open>RangeError\<close> for an index outside \<open>[0, num_inputs)\<close>, with a
  \<open>DuplicateDeclarationError\<close> for an external islot declared before, and with a
  \<open>WiringError\<close> when the inner islot does not exist or is occupied.
\<close>

definition cust_declareIslot ::
  "nat \<Rightarrow> node_name \<Rightarrow> nat \<Rightarrow> custom_node \<Rightarrow> error + (unit \<times> custom_node)" where
  "cust_declareIslot islot innernode_name inode_islot c =
     (if c_num_inputs c \<le> islot then Inl RangeError
      else if islot \<in> set (map fst (c_islot_decl c)) then Inl DuplicateDeclarationError
      else (case map_of (c_nodes c) innernode_name of
              None \<Rightarrow> Inl WiringError
            | Some d \<Rightarrow>
                (if n_num_inputs d \<le> inode_islot \<or> islot_occupied c innernode_name inode_islot
                 then Inl WiringError
                 else Inr ((), c\<lparr>c_islot_decl := c_islot_decl c @
                        [(islot, innernode_name, inode_islot)]\<rparr>))))"

text \<open>
  Modelled from the spec: \<open>declareOslot(oslot, innernode_name, inode_oslot)\<close> fails with a
  \<open>RangeError\<close> for an index outside \<open>[0, num_outputs)\<close> and with a \<open>WiringError\<close> when
  the inner oslot does not exist; an oslot may fan out.
\<close>

definition cust_declareOslot ::
  "nat \<Rightarrow> node_name \<Rightarrow> nat \<Rightarrow> custom_node \<Rightarrow> error + (unit \<times> custom_node)" where
  "cust_declareOslot oslot innernode_name inode_oslot c =
     (if c_num_outputs c \<le> oslot then Inl RangeError
      else (case map_of (c_nodes c) innernode_name of
              None \<Rightarrow> Inl WiringError
            | Some d \<Rightarrow>
                (if n_num_outputs d \<le> inode_oslot then Inl WiringError
                 else Inr ((), c\<lparr>c_oslot_decl :=
                        AList.update oslot (innernode_name, inode_oslot) (c_oslot_decl c)\<rparr>))))"

text \<open>
  Modelled from the spec: the dependency order of \<open>commit\<close>.  Each round removes the
  nodes that no remaining node feeds; the links have no cycle when every node is removed
  within as many rounds as there are nodes.
\<close>

fun orderable :: "nat \<Rightarrow> node_name list \<Rightarrow> link list \<Rightarrow> bool" where
  "orderable 0 ns ls = (ns = [])"
| "orderable (Suc k) ns ls =
     (let ready = filter (\<lambda>n. \<not> list_ex (\<lambda>l. l_dst l = n \<and> l_src l \<in> set ns) ls) ns in
      if ns = [] then True
      else if ready = [] then False
      else orderable k (filter (\<lambda>n. n \<notin> set ready) ns) ls)"

text \<open>
  Modelled from the spec: \<open>commit()\<close> of a custom node commits the internal builder.  It
  fails with an \<open>UnresolvedSlotError\<close> when an islot of an inner node is not filled and
  with a \<open>CycleError\<close> when the links have a cycle.
\<close>

definition cust_commit :: "custom_node \<Rightarrow> error + (unit \<times> custom_node)" where
  "cust_commit c =
     (if \<not> list_all (\<lambda>nd. list_all (islot_occupied c (fst nd)) [0..<n_num_inputs (snd nd)])
             (c_nodes c)
      then Inl UnresolvedSlotError
      else if \<not> orderable (length (c_nodes c)) (map fst (c_nodes c)) (c_links c)
      then Inl CycleError
      else Inr ((), c\<lparr>c_committed := True\<rparr>))"


section \<open>seq\_cells.py: the cell classes\<close>

text \<open>
  A cell object: its class, which decides the methods that a call reaches, and its
  attributes.  An attribute that a constructor has not set is \<open>None\<close> (or empty).
  \<open>ext_builder\<close> and \<open>builder\<close> are references into the store; \<open>encoder\<close> refers to a
  node of the private builder.  \<open>name\<close> is not among the attributes: on these classes
  it is a property of the base class, see \<open>set_name\<close> below.
\<close>

datatype cell_class = CustomCell | TwoEncodersCell | NormalTriLCell

record cell =
  cls :: cell_class
  ext_builder :: "nat option"
  builder :: nat
  num_expected_inputs :: int
  num_expected_outputs :: int
  state_dims :: "nat list list"
  cname :: "string option"
  init_states :: "node_name list option"
  directives :: "(string \<times> string) list"
  encoder :: "node_ref option"

text \<open>
  Sequencing of steps that may raise.  A raise carries no store: before any step of a
  constructor can raise, the only builder that has changed is the private one just
  allocated, which nothing but the abandoned cell refers to.
\<close>

definition then_do :: "error + 'a \<Rightarrow> ('a \<Rightarrow> error + 'b) \<Rightarrow> error + 'b" where
  "then_do r f = (case r of Inl e \<Rightarrow> Inl e | Inr x \<Rightarrow> f x)"

text \<open>
  \<open>CustomCell.__init__(num_inputs, num_outputs, builder)\<close>, for an object of class \<open>c\<close>.
  The constructors of the base classes \<open>ANode\<close> and \<open>RNNCell\<close> set none of the attributes
  above.
\<close>

definition CustomCell_init :: "cell_class \<Rightarrow> int \<Rightarrow> int \<Rightarrow> nat option \<Rightarrow> heap \<Rightarrow> cell \<times> heap" where
  "CustomCell_init c num_inputs num_outputs ext h =
     (let (b, h') = StaticBuilder ''Cell'' h in
      (\<lparr>cls = c, ext_builder = ext, builder = b,
        num_expected_inputs = num_inputs, num_expected_outputs = num_outputs,
        state_dims = [], cname = None, init_states = None,
        directives = [], encoder = None\<rparr>, h'))"

text \<open>
  The properties \<open>state_size\<close> and \<open>output_size\<close>: \<open>CustomCell\<close> raises, the two
  subclasses override.
\<close>

definition state_size :: "cell \<Rightarrow> error + nat list list" where
  "state_size self =
     (case cls self of
        CustomCell \<Rightarrow> Inl NotImplementedError
      | TwoEncodersCell \<Rightarrow> Inr (state_dims self)
      | NormalTriLCell \<Rightarrow> Inr (state_dims self))"

definition output_size :: "cell \<Rightarrow> error + nat list list" where
  "output_size self =
     (case cls self of
        CustomCell \<Rightarrow> Inl NotImplementedError
      | TwoEncodersCell \<Rightarrow> Inr (state_dims self)
      | NormalTriLCell \<Rightarrow> Inr (state_dims self))"

text \<open>
  The method \<open>get_init_states(ext_builder)\<close>: \<open>CustomCell\<close> raises; \<open>TwoEncodersCell\<close>
  does not define a method of this name and inherits the one of \<open>CustomCell\<close>;
  \<open>NormalTriLCell\<close> overrides it.  \<open>None\<close> has no \<open>addInput\<close>.
\<close>

definition get_init_states :: "cell \<Rightarrow> nat option \<Rightarrow> heap \<Rightarrow> error + (node_name list \<times> heap)" where
  "get_init_states self ext h =
     (case cls self of
        CustomCell \<Rightarrow> Inl NotImplementedError
      | TwoEncodersCell \<Rightarrow> Inl NotImplementedError
      | NormalTriLCell \<Rightarrow>
          (case ext of
             None \<Rightarrow> Inl AttributeError
           | Some b \<Rightarrow>
               then_do (addInput (state_dims self) NormalInputNode (directives self) b h)
                 (\<lambda>(nm, h). Inr ([nm], h))))"

text \<open>\<open>_update_directives(**dirs)\<close> of both subclasses.\<close>

definition update_directives :: "cell \<Rightarrow> (string \<times> string) list \<Rightarrow> cell" where
  "update_directives self dirs = self\<lparr>directives := dict_update [] dirs\<rparr>"

text \<open>
  \<open>TwoEncodersCell.declare_cell_encoder()\<close>.  \<open>self.state_size[0:1]\<close> and
  \<open>self.state_size[1:2]\<close> are slices, which never raise.
\<close>

definition TwoEncodersCell_declare_cell_encoder :: "cell \<Rightarrow> heap \<Rightarrow> error + (node_ref \<times> heap)" where
  "TwoEncodersCell_declare_cell_encoder self h =
     then_do (createCustomNode 3 2 ''Custom'' (builder self) h) (\<lambda>(cust, h).
     then_do (state_size self) (\<lambda>sizes1.
     then_do (on_custom (cust_addInner (take 1 sizes1) 2) cust h) (\<lambda>(cust_in1, h).
     then_do (state_size self) (\<lambda>sizes2.
     then_do (on_custom (cust_addInner (take 1 (drop 1 sizes2)) 2) cust h) (\<lambda>(cust_in2, h).
     then_do (on_custom (cust_addDirectedLink cust_in1 cust_in2 0 1) cust h) (\<lambda>(_, h).
     then_do (on_custom (cust_declareIslot 0 cust_in1 0) cust h) (\<lambda>(_, h).
     then_do (on_custom (cust_declareIslot 1 cust_in2 0) cust h) (\<lambda>(_, h).
     then_do (on_custom (cust_declareIslot 2 cust_in1 1) cust h) (\<lambda>(_, h).
     then_do (on_custom (cust_declareOslot 0 cust_in1 0) cust h) (\<lambda>(_, h).
     then_do (on_custom (cust_declareOslot 1 cust_in2 0) cust h) (\<lambda>(_, h).
     then_do (on_custom cust_commit cust h) (\<lambda>(_, h).
     Inr (cust, h)))))))))))))"

text \<open>
  \<open>TwoEncodersCell._get_init_states()\<close>: two input nodes on the external builder that
  the constructor received, for \<open>state_dims[:1]\<close> and \<open>state_dims[1:]\<close>.
\<close>

definition TwoEncodersCell_get_init_states ::
  "cell \<Rightarrow> heap \<Rightarrow> error + (node_name list \<times> cell \<times> heap)" where
  "TwoEncodersCell_get_init_states self h =
     (case ext_builder self of
        None \<Rightarrow> Inl AttributeError
      | Some b \<Rightarrow>
          then_do (addInput (take 1 (state_dims self)) NormalInputNode [] b h) (\<lambda>(init1, h).
          then_do (addInput (drop 1 (state_dims self)) NormalInputNode [] b h) (\<lambda>(init2, h).
          Inr ([init1, init2], self\<lparr>init_states := Some [init1, init2]\<rparr>, h))))"

text \<open>
  \<open>TwoEncodersCell.__init__(state_sizes, builder, num_inputs=3, num_outputs=2,
  name=None, **dirs)\<close>; \<open>ext\<close> is the argument \<open>builder\<close> and \<open>given\<close> the argument
  \<open>name\<close>.
\<close>

definition TwoEncodersCell_init ::
  "nat list list \<Rightarrow> nat option \<Rightarrow> int \<Rightarrow> int \<Rightarrow> string option \<Rightarrow> (string \<times> string) list \<Rightarrow>
   heap \<Rightarrow> error + (cell \<times> heap)" where
  "TwoEncodersCell_init state_sizes ext num_inputs num_outputs given dirs h =
     (let (self, h) = CustomCell_init TwoEncodersCell num_inputs num_outputs ext h;
          self = self\<lparr>state_dims := state_sizes,
                      cname := Some (case given of None \<Rightarrow> ''TwoEncCell'' | Some n \<Rightarrow> n),
                      init_states := None\<rparr>;
          self = update_directives self dirs in
      then_do (TwoEncodersCell_declare_cell_encoder self h) (\<lambda>(enc, h).
      then_do (TwoEncodersCell_get_init_states (self\<lparr>encoder := Some enc\<rparr>) h)
        (\<lambda>(inits, self, h).
      Inr (self\<lparr>init_states := Some inits\<rparr>, h))))"

text \<open>
  \<open>NormalTriLCell.declare_cell_encoder()\<close>: one node of class \<open>NormalTriLNode\<close> on the
  private builder, then the lookup \<open>self.builder.nodes[enc_name]\<close>.
\<close>

definition NormalTriLCell_declare_cell_encoder :: "cell \<Rightarrow> heap \<Rightarrow> error + (node_ref \<times> heap)" where
  "NormalTriLCell_declare_cell_encoder self h =
     then_do (addInner (state_dims self) 2 NormalTriLNode (Some ''NormalTriLCell'') []
                (builder self) h) (\<lambda>(enc_name, h).
     if builder self < length h then
       (case map_of (b_nodes (h ! builder self)) enc_name of
          None \<Rightarrow> Inl (NodeKeyError enc_name)
        | Some _ \<Rightarrow> Inr ((builder self, enc_name), h))
     else Inl InvalidReference)"

text \<open>
  \<open>self.name = value\<close> on a cell.  \<open>CustomCell\<close> derives from \<open>tf.nn.rnn_cell.RNNCell\<close>,
  a layer of TensorFlow, whose \<open>name\<close> is a property without a setter: the assignment
  raises \<open>AttributeError\<close> and sets nothing.  (\<open>ANode\<close>, the other base class, is not
  among the modelled files; it is taken not to replace \<open>name\<close> by a settable attribute.
  \<open>TwoEncodersCell\<close> stores its name in \<open>cname\<close> instead.)
\<close>

definition set_name :: "cell \<Rightarrow> string \<Rightarrow> error + cell" where
  "set_name self value = Inl AttributeError"

text \<open>
  \<open>NormalTriLCell.__init__(state_sizes, num_inputs=2, name=None, **dirs)\<close>; \<open>given\<close> is
  the argument \<open>name\<close>.  The base constructor gets \<open>num_outputs=1\<close> and \<open>builder=None\<close>.
  Line 189 assigns \<open>self.name\<close>; \<open>_update_directives\<close> and \<open>declare_cell_encoder\<close> come
  after it.
\<close>

definition NormalTriLCell_init ::
  "nat list list \<Rightarrow> int \<Rightarrow> string option \<Rightarrow> (string \<times> string) list \<Rightarrow> heap \<Rightarrow>
   error + (cell \<times> heap)" where
  "NormalTriLCell_init state_sizes num_inputs given dirs h =
     (let (self, h) = CustomCell_init NormalTriLCell num_inputs 1 None h;
          self = self\<lparr>state_dims := state_sizes\<rparr> in
      then_do (set_name self (case given of None \<Rightarrow> ''NormalTriLCell'' | Some n \<Rightarrow> n))
        (\<lambda>self.
      let self = update_directives self dirs in
      then_do (NormalTriLCell_declare_cell_encoder self h) (\<lambda>(enc, h).
      Inr (self\<lparr>encoder := Some enc\<rparr>, h))))"

subsection \<open>What construction is expected to leave in the store\<close>

text \<open>
  The step graph that \<open>TwoEncodersCell.declare_cell_encoder\<close> declares, read off its
  eleven calls: a custom node with three islots and two oslots around two inner nodes of
  two islots each, the first feeding islot 1 of the second, committed.
\<close>

definition two_encoders_step_graph :: "nat list list \<Rightarrow> custom_node" where
  "two_encoders_step_graph sizes =
     \<lparr>c_num_inputs = 3, c_num_outputs = 2,
      c_nodes = [(AutoName 0, plain_node DefaultInnerNode (take 1 sizes) 2 []),
                 (AutoName 1, plain_node DefaultInnerNode (take 1 (drop 1 sizes)) 2 [])],
      c_counter = 2,
      c_links = [\<lparr>l_src = AutoName 0, l_oslot = 0, l_dst = AutoName 1, l_islot = 1\<rparr>],
      c_islot_decl = [(0, AutoName 0, 0), (1, AutoName 1, 0), (2, AutoName 0, 1)],
      c_oslot_decl = [(0, AutoName 0, 0), (1, AutoName 1, 0)],
      c_committed = True\<rparr>"

text \<open>The private builder of a \<open>TwoEncodersCell\<close> after construction.\<close>

definition two_encoders_private_builder :: "nat list list \<Rightarrow> builder" where
  "two_encoders_private_builder sizes =
     \<lparr>b_scope = ''Cell'',
      b_nodes = [(Name ''Custom'', CustomNode (two_encoders_step_graph sizes))],
      b_counter = 0\<rparr>"

text \<open>
  A builder after \<open>addInput\<close> has registered the input nodes of the given state sizes and
  directives, one after the other, under names generated from its counter.
\<close>

fun with_inputs :: "(nat list list \<times> (string \<times> string) list) list \<Rightarrow> builder \<Rightarrow> builder" where
  "with_inputs [] bld = bld"
| "with_inputs ((sizes, dirs) # rest) bld =
     with_inputs rest
       (bld\<lparr>b_nodes := AList.update (AutoName (b_counter bld))
                           (PlainNode (plain_node NormalInputNode sizes 0 dirs)) (b_nodes bld),
            b_counter := Suc (b_counter bld)\<rparr>)"

subsection \<open>Constructing cell instances\<close>

text \<open>
  A class called with its arguments, \<open>TwoEncodersCell(...)\<close> or \<open>NormalTriLCell(...)\<close>,
  in the order of the parameters of the two constructors.
\<close>

datatype cell_args =
    TwoEncodersCell_args "nat list list" "nat option" int int "string option"
      "(string \<times> string) list"
  | NormalTriLCell_args "nat list list" int "string option" "(string \<times> string) list"

fun construct :: "cell_args \<Rightarrow> heap \<Rightarrow> error + (cell \<times> heap)" where
  "construct (TwoEncodersCell_args sizes ext num_inputs num_outputs given dirs) h =
     TwoEncodersCell_init sizes ext num_inputs num_outputs given dirs h"
| "construct (NormalTriLCell_args sizes num_inputs given dirs) h =
     NormalTriLCell_init sizes num_inputs given dirs h"

text \<open>
  A builder that a caller passes is an object that exists: its reference is an index of
  the store at the time of the call.
\<close>

fun args_in_store :: "cell_args \<Rightarrow> heap \<Rightarrow> bool" where
  "args_in_store (TwoEncodersCell_args sizes ext num_inputs num_outputs given dirs) h =
     (case ext of None \<Rightarrow> True | Some e \<Rightarrow> e < length h)"
| "args_in_store (NormalTriLCell_args sizes num_inputs given dirs) h = True"

section \<open>Properties of dictionaries\<close>

lemma dict_update_Nil: "dict_update d [] = d"
  by (simp add: dict_update_def)

lemma dict_update_Cons:
  "dict_update d (kv # kvs) = dict_update (AList.update (fst kv) (snd kv) d) kvs"
  by (simp add: dict_update_def)

lemma update_fresh: "k \<notin> fst ` set d \<Longrightarrow> AList.update k v d = d @ [(k, v)]"
  by (induction d) auto

lemma dict_update_append:
  "distinct (map fst kvs) \<Longrightarrow> fst ` set kvs \<inter> fst ` set d = {} \<Longrightarrow> dict_update d kvs = d @ kvs"
proof (induction kvs arbitrary: d)
  case Nil
  then show ?case by (simp add: dict_update_def)
next
  case (Cons kv kvs)
  have fresh: "fst kv \<notin> fst ` set d" using Cons.prems(2) by auto
  have step: "dict_update d (kv # kvs) = dict_update (d @ [(fst kv, snd kv)]) kvs"
    using update_fresh [OF fresh] by (simp add: dict_update_def)
  have "dict_update (d @ [(fst kv, snd kv)]) kvs = (d @ [(fst kv, snd kv)]) @ kvs"
  proof (rule Cons.IH)
    show "distinct (map fst kvs)" using Cons.prems(1) by simp
    show "fst ` set kvs \<inter> fst ` set (d @ [(fst kv, snd kv)]) = {}"
      using Cons.prems by auto
  qed
  with step show ?case by simp
qed

lemma dict_of_enumerate: "dict_of (enumerate n xs) = enumerate n xs"
  using dict_update_append [of "enumerate n xs" "[]"]
  by (simp add: dict_of_def)

lemma fst_set_enumerate: "fst ` set (enumerate n xs) = {n..<n + length xs}"
proof -
  have "set (map fst (enumerate n xs)) = {n..<n + length xs}"
    by (simp only: map_fst_enumerate set_upt)
  then show ?thesis by (simp only: set_map)
qed

lemma dict_update_enumerate:
  "dict_update (enumerate 0 xs) (enumerate (length xs) ys) = enumerate 0 (xs @ ys)"
proof -
  have "dict_update (enumerate 0 xs) (enumerate (length xs) ys) =
        enumerate 0 xs @ enumerate (length xs) ys"
    by (rule dict_update_append) (auto simp: fst_set_enumerate)
  then show ?thesis by (simp add: enumerate_append_eq)
qed

lemma dict_of_single: "dict_of [kv] = [kv]"
  by (cases kv) (simp add: dict_of_def dict_update_def)

section \<open>Properties of \<open>Model.prepare_datasets\<close>\<close>

lemma split_char_nonempty: "split_char c s \<noteq> []"
  by (induction s) (auto split: list.splits)

lemma split_char_hd: "hd (split_char c s) = takeWhile (\<lambda>x. x \<noteq> c) s"
  by (induction s) (auto split: list.splits simp: split_char_nonempty)

lemma join_split_char: "join_str [c] (split_char c s) = s"
proof (induction s)
  case Nil
  then show ?case by simp
next
  case (Cons x xs)
  show ?case
  proof (cases "x = c")
    case True
    obtain w ws where ws: "split_char c xs = w # ws"
      using split_char_nonempty [of c xs] by (cases "split_char c xs") auto
    with True Cons show ?thesis by simp
  next
    case False
    obtain w ws where ws: "split_char c xs = w # ws"
      using split_char_nonempty [of c xs] by (cases "split_char c xs") auto
    with False Cons show ?thesis by (cases ws) auto
  qed
qed

lemma join_tl_split_char:
  "join_str [c] (tl (split_char c s)) = drop (Suc (length (takeWhile (\<lambda>x. x \<noteq> c) s))) s"
proof (induction s)
  case Nil
  then show ?case by simp
next
  case (Cons x xs)
  obtain w ws where ws: "split_char c xs = w # ws"
    using split_char_nonempty [of c xs] by (cases "split_char c xs") auto
  show ?case
  proof (cases "x = c")
    case True
    have "join_str [c] (tl (split_char c (x # xs))) = join_str [c] (split_char c xs)"
      using True by simp
    then show ?thesis using True by (simp add: join_split_char)
  next
    case False
    then show ?thesis using Cons ws by simp
  qed
qed

lemma split_char_cases:
  obtains parts where
    "split_char (CHR ''_'') key = key_prefix key # parts"
    "join_str ''_'' parts = key_inode key"
proof -
  obtain w ws where ws: "split_char (CHR ''_'') key = w # ws"
    using split_char_nonempty [of "CHR ''_''" key] by (cases "split_char (CHR ''_'') key") auto
  have "w = key_prefix key"
    using split_char_hd [of "CHR ''_''" key] ws by (simp add: key_prefix_def)
  moreover have "join_str ''_'' ws = key_inode key"
    using join_tl_split_char [of "CHR ''_''" key] ws by (simp add: key_inode_def key_prefix_def)
  ultimately show ?thesis using that ws by blast
qed

lemma placed_Nil: "placed scope p [] = []"
  by (simp add: placed_def)

lemma placed_Cons:
  "placed scope p ((key, val) # rest) =
     (if key_prefix key = p
      then (scope @ ''/'' @ key_inode key @ ''_main:0'', val) # placed scope p rest
      else placed scope p rest)"
  by (simp add: placed_def)

text \<open>
  The loop stops at the first key with a prefix that is not allowed; without such a key
  it stores, in each of the three dictionaries, the entries of that prefix in order.
\<close>

lemma prepare_datasets_loop_eq:
  "prepare_datasets_loop scope dataset (tr, va, te) =
     (case find (\<lambda>kv. \<not> allowed_prefix (key_prefix (fst kv))) dataset of
        Some kv \<Rightarrow> Inl (KeyError (fst kv))
      | None \<Rightarrow> Inr (dict_update tr (placed scope ''train'' dataset),
                     dict_update va (placed scope ''valid'' dataset),
                     dict_update te (placed scope ''test'' dataset)))"
proof (induction dataset arbitrary: tr va te)
  case Nil
  then show ?case by (simp add: placed_Nil dict_update_Nil)
next
  case (Cons kv rest)
  obtain key val where kv: "kv = (key, val)" by (cases kv)
  obtain parts where parts:
    "split_char (CHR ''_'') key = key_prefix key # parts"
    "join_str ''_'' parts = key_inode key"
    by (rule split_char_cases)
  consider (train) "key_prefix key = ''train''" | (valid) "key_prefix key = ''valid''"
    | (test) "key_prefix key = ''test''" | (bad) "\<not> allowed_prefix (key_prefix key)"
    by (auto simp: allowed_prefix_def)
  then show ?case
  proof cases
    case train
    show ?thesis
      unfolding kv using train parts Cons.IH
      by (simp add: placed_Cons dict_update_Cons allowed_prefix_def split: option.split)
  next
    case valid
    show ?thesis
      unfolding kv using valid parts Cons.IH
      by (simp add: placed_Cons dict_update_Cons allowed_prefix_def split: option.split)
  next
    case test
    show ?thesis
      unfolding kv using test parts Cons.IH
      by (simp add: placed_Cons dict_update_Cons allowed_prefix_def split: option.split)
  next
    case bad
    show ?thesis
      unfolding kv using bad parts
      by (simp add: allowed_prefix_def)
  qed
qed

text \<open>
  A key with an underscore is its prefix, the underscore and its node name; so the
  entries of one prefix with distinct keys get distinct new names.
\<close>

lemma key_split:
  assumes "CHR ''_'' \<in> set key"
  shows "key = key_prefix key @ CHR ''_'' # key_inode key"
proof -
  let ?P = "\<lambda>c. c \<noteq> CHR ''_''"
  have ne: "dropWhile ?P key \<noteq> []" using assms by (auto simp: dropWhile_eq_Nil_conv)
  then have "hd (dropWhile ?P key) = CHR ''_''"
    using hd_dropWhile [of ?P key] by simp
  with ne have dw: "dropWhile ?P key = CHR ''_'' # tl (dropWhile ?P key)"
    by (cases "dropWhile ?P key") simp_all
  have "key_inode key = tl (dropWhile ?P key)"
    by (simp add: key_inode_def key_prefix_def dropWhile_eq_drop drop_Suc tl_drop)
  moreover have "key = takeWhile ?P key @ dropWhile ?P key" by simp
  ultimately show ?thesis using dw by (simp add: key_prefix_def)
qed

lemma placed_distinct:
  assumes "distinct (map fst dataset)"
    and "\<forall>kv \<in> set dataset. CHR ''_'' \<in> set (fst kv)"
  shows "distinct (map fst (placed scope p dataset))"
proof -
  let ?f = "\<lambda>k. scope @ ''/'' @ key_inode k @ ''_main:0''"
  let ?ks = "filter (\<lambda>k. key_prefix k = p) (map fst dataset)"
  have eq: "map fst (placed scope p dataset) = map ?f ?ks"
    by (simp add: placed_def filter_map comp_def)
  have d: "distinct ?ks" using assms(1) by simp
  have "inj_on ?f (set ?ks)"
  proof (rule inj_onI)
    fix k k' assume k: "k \<in> set ?ks" and k': "k' \<in> set ?ks" and e: "?f k = ?f k'"
    from e have i: "key_inode k = key_inode k'" by simp
    from k assms(2) have "k = key_prefix k @ CHR ''_'' # key_inode k"
      by (intro key_split) auto
    moreover from k' assms(2) have "k' = key_prefix k' @ CHR ''_'' # key_inode k'"
      by (intro key_split) auto
    moreover from k k' have "key_prefix k = key_prefix k'" by simp
    ultimately show "k = k'" using i by metis
  qed
  with d eq show ?thesis by (simp add: distinct_map)
qed

lemma dict_of_placed:
  assumes "distinct (map fst dataset)"
    and "\<forall>kv \<in> set dataset. CHR ''_'' \<in> set (fst kv)"
  shows "dict_of (placed scope p dataset) = placed scope p dataset"
  using dict_update_append [of "placed scope p dataset" "[]"] placed_distinct [OF assms]
  by (simp add: dict_of_def)

text \<open>
  Claim C8.  \<open>Model.prepare_datasets\<close> raises a \<open>KeyError\<close> exactly when some key of the
  dataset has a prefix (the substring before the first underscore) other than \<open>train\<close>,
  \<open>valid\<close> or \<open>test\<close>, and it raises nothing else.  When every prefix is allowed it
  returns the dictionary with exactly the keys \<open>train\<close>, \<open>valid\<close> and \<open>test\<close>, and the
  dictionary for the prefix \<open>p\<close> is the one obtained by storing every entry \<open>p_inode\<close> of
  the dataset, in order, under the key \<open>scope + '/' + inode + '_main:0'\<close>.  When every
  key has an underscore, no two entries get the same new key, and that dictionary holds
  the entries of the prefix one for one.
\<close>

theorem prepare_datasets_KeyError_iff_bad_prefix:
  "((\<exists>k. prepare_datasets scope dataset = Inl (KeyError k)) \<longleftrightarrow>
      (\<exists>kv \<in> set dataset. \<not> allowed_prefix (key_prefix (fst kv)))) \<and>
   (\<forall>e. prepare_datasets scope dataset = Inl e \<longrightarrow> (\<exists>k \<in> fst ` set dataset. e = KeyError k)) \<and>
   ((\<forall>kv \<in> set dataset. allowed_prefix (key_prefix (fst kv))) \<longrightarrow>
      prepare_datasets scope dataset =
        Inr [(''train'', dict_of (placed scope ''train'' dataset)),
             (''valid'', dict_of (placed scope ''valid'' dataset)),
             (''test'', dict_of (placed scope ''test'' dataset))]) \<and>
   (distinct (map fst dataset) \<and> (\<forall>kv \<in> set dataset. CHR ''_'' \<in> set (fst kv)) \<longrightarrow>
      dict_of (placed scope p dataset) = placed scope p dataset)"
proof (cases "find (\<lambda>kv. \<not> allowed_prefix (key_prefix (fst kv))) dataset")
  case None
  then have ok: "\<forall>kv \<in> set dataset. allowed_prefix (key_prefix (fst kv))"
    by (auto simp: find_None_iff)
  have "prepare_datasets scope dataset =
        Inr [(''train'', dict_of (placed scope ''train'' dataset)),
             (''valid'', dict_of (placed scope ''valid'' dataset)),
             (''test'', dict_of (placed scope ''test'' dataset))]"
    using None by (simp add: prepare_datasets_def prepare_datasets_loop_eq dict_of_def)
  with ok show ?thesis using dict_of_placed [of dataset scope p] by auto
next
  case (Some kv)
  then have mem: "kv \<in> set dataset" and bad: "\<not> allowed_prefix (key_prefix (fst kv))"
    by (auto simp: find_Some_iff)
  have "prepare_datasets scope dataset = Inl (KeyError (fst kv))"
    using Some by (simp add: prepare_datasets_def prepare_datasets_loop_eq)
  with mem bad show ?thesis using dict_of_placed [of dataset scope p] by auto
qed

text \<open>A dataset with one entry for each prefix, and a dataset with a key \<open>foo_x\<close>.\<close>

theorem prepare_datasets_KeyError_iff_bad_prefix_witness:
  "prepare_datasets ''VIND''
     [(''train_Observation'', 1::nat), (''valid_Observation'', 2), (''test_a_b'', 3)] =
     Inr [(''train'', [(''VIND/Observation_main:0'', 1)]),
          (''valid'', [(''VIND/Observation_main:0'', 2)]),
          (''test'', [(''VIND/a_b_main:0'', 3)])] \<and>
   (\<exists>k. prepare_datasets ''VIND'' [(''train_Observation'', 1::nat), (''foo_x'', 2)] =
      Inl (KeyError k))"
  using prepare_datasets_KeyError_iff_bad_prefix [of "''VIND''"
      "[(''train_Observation'', 1::nat), (''valid_Observation'', 2), (''test_a_b'', 3)]" "''train''"]
    prepare_datasets_KeyError_iff_bad_prefix [of "''VIND''"
      "[(''train_Observation'', 1::nat), (''foo_x'', 2)]" "''train''"]
  by (simp add: placed_def dict_of_def dict_update_def key_prefix_def key_inode_def
      allowed_prefix_def)

section \<open>Properties of the call of a cell\<close>

lemma py_len_iter: "py_len v = Inr n \<Longrightarrow> \<exists>vs. py_iter v = Inr vs \<and> length vs = n"
  by (cases v) (auto simp: py_len_def py_iter_def)

lemma py_len_iter_Inl: "py_len v = Inl e \<Longrightarrow> py_iter v = Inl TypeError"
  by (cases v) (auto simp: py_len_def py_iter_def)

lemma py_iter_Inl: "py_iter v = Inl e \<Longrightarrow> e = TypeError"
  by (cases v) (auto simp: py_iter_def)

lemma islot_to_itensor_eq:
  "TwoEncodersCell_islot_to_itensor inputs state = Inr (states_then_inputs inputs state)"
proof (cases "py_len state")
  case (Inl e)
  then have it: "py_iter state = Inl TypeError" by (rule py_len_iter_Inl)
  have it': "py_iter (PySeq [state]) = Inr [state]" by (simp add: py_iter_def)
  show ?thesis
  proof (cases "py_iter inputs")
    case (Inl e')
    have "dict_update [(0, state)] [(Suc 0, inputs)] = [(0, state), (Suc 0, inputs)]"
      by (simp add: dict_update_def)
    then show ?thesis using Inl \<open>py_len state = Inl e\<close> it it'
      by (simp add: TwoEncodersCell_islot_to_itensor_def states_then_inputs_def as_sequence_def
          dict_of_enumerate dict_of_single)
  next
    case (Inr xs)
    have "dict_update [(0, state)] (enumerate (Suc 0) xs) = (0, state) # enumerate (Suc 0) xs"
      using dict_update_enumerate [of "[state]" xs] by simp
    then show ?thesis using Inr \<open>py_len state = Inl e\<close> it it'
      by (simp add: TwoEncodersCell_islot_to_itensor_def states_then_inputs_def as_sequence_def
          dict_of_enumerate dict_of_single)
  qed
next
  case (Inr n)
  then obtain vs where vs: "py_iter state = Inr vs" "length vs = n"
    using py_len_iter by blast
  show ?thesis
  proof (cases "py_iter inputs")
    case (Inl e')
    have "dict_update (enumerate 0 vs) [(length vs, inputs)] = enumerate 0 (vs @ [inputs])"
      using dict_update_enumerate [of vs "[inputs]"] by simp
    then show ?thesis using Inl Inr vs
      by (simp add: TwoEncodersCell_islot_to_itensor_def states_then_inputs_def as_sequence_def
          dict_of_enumerate dict_of_single)
  next
    case (Inr xs)
    have "dict_update (enumerate 0 vs) (enumerate (length vs) xs) = enumerate 0 (vs @ xs)"
      by (rule dict_update_enumerate)
    then show ?thesis using Inr \<open>py_len state = Inr n\<close> vs
      by (simp add: TwoEncodersCell_islot_to_itensor_def states_then_inputs_def as_sequence_def
          dict_of_enumerate dict_of_single)
  qed
qed

lemma map_of_enumerate: "i < length xs \<Longrightarrow> map_of (enumerate n xs) (n + i) = Some (xs ! i)"
proof -
  assume i: "i < length xs"
  have d: "distinct (map fst (enumerate n xs))" by (simp only: map_fst_enumerate distinct_upt)
  have "(n + i, xs ! i) \<in> set (enumerate n xs)"
    using i by (auto simp: in_set_enumerate_eq)
  with d show ?thesis by (rule map_of_is_SomeI)
qed

text \<open>
  Claim C1, for \<open>TwoEncodersCell\<close>.  On every call, whatever the two arguments are, the
  mapping from slot index to tensor that reaches the encoder gives the state components,
  in their order, the consecutive islots from 0, and the inputs of the step the
  consecutive islots from the index after the last state: states come before inputs.
\<close>

theorem TwoEncodersCell_call_states_then_inputs:
  "TwoEncodersCell_islot_to_itensor inputs state = Inr (states_then_inputs inputs state) \<and>
   TwoEncodersCell_call encoder_call inputs state =
     (case encoder_call (states_then_inputs inputs state) of
        Inl e \<Rightarrow> Inl e
      | Inr result \<Rightarrow>
          (case unpack_pair result of Inl e \<Rightarrow> Inl e | Inr (out, _) \<Rightarrow> Inr (out, out))) \<and>
   map fst (states_then_inputs inputs state) =
     [0..<length (as_sequence state) + length (as_sequence inputs)] \<and>
   (\<forall>i < length (as_sequence state).
      map_of (states_then_inputs inputs state) i = Some (as_sequence state ! i)) \<and>
   (\<forall>j < length (as_sequence inputs).
      map_of (states_then_inputs inputs state) (length (as_sequence state) + j) =
        Some (as_sequence inputs ! j))"
proof (intro conjI allI impI)
  show "TwoEncodersCell_islot_to_itensor inputs state = Inr (states_then_inputs inputs state)"
    by (rule islot_to_itensor_eq)
  show "TwoEncodersCell_call encoder_call inputs state =
     (case encoder_call (states_then_inputs inputs state) of
        Inl e \<Rightarrow> Inl e
      | Inr result \<Rightarrow>
          (case unpack_pair result of Inl e \<Rightarrow> Inl e | Inr (out, _) \<Rightarrow> Inr (out, out)))"
    by (simp add: TwoEncodersCell_call_def islot_to_itensor_eq)
  show "map fst (states_then_inputs inputs state) =
     [0..<length (as_sequence state) + length (as_sequence inputs)]"
    by (simp add: states_then_inputs_def map_fst_enumerate)
next
  fix i assume "i < length (as_sequence state)"
  then have "map_of (enumerate 0 (as_sequence state @ as_sequence inputs)) (0 + i) =
        Some ((as_sequence state @ as_sequence inputs) ! i)"
    by (intro map_of_enumerate) simp
  then show "map_of (states_then_inputs inputs state) i = Some (as_sequence state ! i)"
    using \<open>i < length (as_sequence state)\<close> by (simp add: states_then_inputs_def nth_append)
next
  fix j assume "j < length (as_sequence inputs)"
  then have "map_of (enumerate 0 (as_sequence state @ as_sequence inputs))
          (0 + (length (as_sequence state) + j)) =
        Some ((as_sequence state @ as_sequence inputs) ! (length (as_sequence state) + j))"
    by (intro map_of_enumerate) simp
  then show "map_of (states_then_inputs inputs state) (length (as_sequence state) + j) =
        Some (as_sequence inputs ! j)"
    by (simp add: states_then_inputs_def nth_append)
qed

lemma pyval_not_in_own_seq: "(v :: 't pyval) \<noteq> PySeq (v # vs)"
proof
  assume "v = PySeq (v # vs)"
  then have "size v = size (PySeq (v # vs))" by simp
  then show False by simp
qed


text \<open>Two states and two inputs: the states take the islots 0 and 1, the inputs 2 and 3.\<close>

theorem TwoEncodersCell_call_states_then_inputs_witness:
  "TwoEncodersCell_islot_to_itensor (PySeq [Tensor 5, Tensor 6]) (PySeq [Tensor 1, Tensor (2::nat)]) =
     Inr [(0, Tensor 1), (1, Tensor 2), (2, Tensor 5), (3, Tensor 6)] \<and>
   TwoEncodersCell_call (\<lambda>m. Inr (PySeq (take 2 (map snd m))))
       (PySeq [Tensor 5, Tensor 6]) (PySeq [Tensor 1, Tensor (2::nat)]) =
     Inr (Tensor 1, Tensor 1) \<and>
   map_of (states_then_inputs (PySeq [Tensor 5, Tensor 6]) (PySeq [Tensor 1, Tensor (2::nat)])) 1 =
     Some (Tensor 2) \<and>
   map_of (states_then_inputs (PySeq [Tensor 5, Tensor 6]) (PySeq [Tensor 1, Tensor (2::nat)])) 2 =
     Some (Tensor 5)"
  using TwoEncodersCell_call_states_then_inputs
      [of "PySeq [Tensor 5, Tensor 6]" "PySeq [Tensor 1, Tensor (2::nat)]"
          "\<lambda>m. Inr (PySeq (take 2 (map snd m)))"]
  by (simp add: states_then_inputs_def as_sequence_def py_iter_def unpack_pair_def)

text \<open>
  Claim C1 does not hold for \<open>NormalTriLCell\<close>: called with a state and an input, it
  builds no mapping; an encoder that returns its two arguments shows that it received
  the sequences themselves.
\<close>

theorem NormalTriLCell_call_no_slot_mapping:
  "NormalTriLCell_call (\<lambda>inputs islot_to_itensor. Inr (PySeq [inputs, islot_to_itensor]))
       (PySeq [Tensor (1::nat)]) (PySeq [Tensor 2]) =
     Inr (PySeq [PySeq [Tensor 1], PySeq [Tensor 2]], PySeq [PySeq [Tensor 1], PySeq [Tensor 2]]) \<and>
   PySeq [Tensor 2] \<noteq> PyDict (states_then_inputs (PySeq [Tensor (1::nat)]) (PySeq [Tensor 2]))"
  by (simp add: NormalTriLCell_call_def)

lemma unpack_pair_Inr:
  "unpack_pair result = Inr p \<longleftrightarrow> py_iter result = Inr [fst p, snd p]"
proof (cases "py_iter result")
  case (Inl e)
  then show ?thesis by (simp add: unpack_pair_def)
next
  case (Inr vs)
  then show ?thesis
    by (cases p) (auto simp: unpack_pair_def split: list.splits)
qed

text \<open>
  Claim C10.  \<open>TwoEncodersCell.__call__\<close> returns exactly when the encoder returns two
  outputs, and then both components of the pair are the first output: the new state is
  that single value, never the tuple of the two outputs.
\<close>

theorem TwoEncodersCell_call_first_output_twice:
  "TwoEncodersCell_call encoder_call inputs state = Inr r \<longleftrightarrow>
     (\<exists>result out other.
        encoder_call (states_then_inputs inputs state) = Inr result \<and>
        py_iter result = Inr [out, other] \<and>
        r = (out, out) \<and> snd r \<noteq> PySeq [out, other])"
proof
  assume a: "TwoEncodersCell_call encoder_call inputs state = Inr r"
  then obtain result where res: "encoder_call (states_then_inputs inputs state) = Inr result"
    by (cases "encoder_call (states_then_inputs inputs state)")
      (simp_all add: TwoEncodersCell_call_def islot_to_itensor_eq)
  with a obtain p where p: "unpack_pair result = Inr p" "r = (fst p, fst p)"
    by (cases "unpack_pair result")
      (auto simp: TwoEncodersCell_call_def islot_to_itensor_eq split: prod.splits)
  then have "py_iter result = Inr [fst p, snd p]" by (simp add: unpack_pair_Inr)
  moreover have "snd r \<noteq> PySeq [fst p, snd p]"
    using p(2) pyval_not_in_own_seq [of "fst p" "[snd p]"] by simp
  ultimately show "\<exists>result out other.
        encoder_call (states_then_inputs inputs state) = Inr result \<and>
        py_iter result = Inr [out, other] \<and>
        r = (out, out) \<and> snd r \<noteq> PySeq [out, other]"
    using res p(2) by blast
next
  assume "\<exists>result out other.
        encoder_call (states_then_inputs inputs state) = Inr result \<and>
        py_iter result = Inr [out, other] \<and>
        r = (out, out) \<and> snd r \<noteq> PySeq [out, other]"
  then obtain result out other where
    "encoder_call (states_then_inputs inputs state) = Inr result"
    "py_iter result = Inr [out, other]" "r = (out, out)"
    by blast
  then show "TwoEncodersCell_call encoder_call inputs state = Inr r"
    by (simp add: TwoEncodersCell_call_def islot_to_itensor_eq unpack_pair_def)
qed

text \<open>An encoder with the outputs 10 and 20, on a state of two components.\<close>

theorem TwoEncodersCell_call_first_output_twice_witness:
  "TwoEncodersCell_call (\<lambda>m. Inr (PySeq [Tensor 10, Tensor 20]))
      (Tensor 5) (PySeq [Tensor 1, Tensor (2::nat)]) = Inr (Tensor 10, Tensor 10)"
proof -
  have "\<exists>result out other.
      (\<lambda>m. Inr (PySeq [Tensor 10, Tensor 20]))
          (states_then_inputs (Tensor 5) (PySeq [Tensor 1, Tensor (2::nat)])) = Inr result \<and>
      py_iter result = Inr [out, other] \<and>
      (Tensor 10, Tensor 10) = (out, out) \<and> snd (Tensor 10, Tensor 10) \<noteq> PySeq [out, other]"
    by (simp add: py_iter_def)
  then show ?thesis
    by (simp only: TwoEncodersCell_call_first_output_twice
        [of "\<lambda>m. Inr (PySeq [Tensor 10, Tensor 20])" "Tensor 5"
            "PySeq [Tensor 1, Tensor (2::nat)]" "(Tensor 10, Tensor 10)"])
qed

section \<open>Construction, evaluated\<close>

text \<open>
  The constructors run a fixed sequence of builder calls; the lemmas of this section give
  their results in closed form.
\<close>

lemma then_do_Inr [simp]: "then_do (Inr x) f = f x"
  by (simp add: then_do_def)

lemma then_do_Inl [simp]: "then_do (Inl e) f = Inl e"
  by (simp add: then_do_def)

lemma addInput_eq:
  "b < length h \<Longrightarrow>
   addInput sizes NormalInputNode dirs b h =
     Inr (AutoName (b_counter (h ! b)), h[b := with_inputs [(sizes, dirs)] (h ! b)])"
  by (simp add: addInput_def Let_def)

lemma CustomCell_init_eq:
  "CustomCell_init c num_inputs num_outputs ext h =
     (\<lparr>cls = c, ext_builder = ext, builder = length h,
       num_expected_inputs = num_inputs, num_expected_outputs = num_outputs,
       state_dims = [], cname = None, init_states = None,
       directives = [], encoder = None\<rparr>,
      h @ [\<lparr>b_scope = ''Cell'', b_nodes = [], b_counter = 0\<rparr>])"
  by (simp add: CustomCell_init_def StaticBuilder_def)

lemma declare_cell_encoder_eq:
  assumes "cls self = TwoEncodersCell" and "builder self < length h"
    and "h ! builder self = \<lparr>b_scope = sc, b_nodes = [], b_counter = 0\<rparr>"
  shows "TwoEncodersCell_declare_cell_encoder self h =
     Inr ((builder self, Name ''Custom''),
          h[builder self := \<lparr>b_scope = sc,
              b_nodes = [(Name ''Custom'', CustomNode (two_encoders_step_graph (state_dims self)))],
              b_counter = 0\<rparr>])"
  using assms
  by (simp add: TwoEncodersCell_declare_cell_encoder_def createCustomNode_def state_size_def
      on_custom_def get_custom_def cust_addInner_def cust_addDirectedLink_def
      cust_declareIslot_def cust_declareOslot_def cust_commit_def islot_occupied_def
      plain_node_def two_encoders_step_graph_def Let_def numeral_2_eq_2)


lemma with_inputs_counter: "b_counter (with_inputs l bld) = b_counter bld + length l"
  by (induction l bld rule: with_inputs.induct) simp_all

lemma TwoEncodersCell_get_init_states_eq:
  assumes "ext_builder self = Some e" and "e < length h"
  shows "TwoEncodersCell_get_init_states self h =
     Inr ([AutoName (b_counter (h ! e)), AutoName (Suc (b_counter (h ! e)))],
          self\<lparr>init_states := Some [AutoName (b_counter (h ! e)), AutoName (Suc (b_counter (h ! e)))]\<rparr>,
          h[e := with_inputs [(take 1 (state_dims self), []), (drop 1 (state_dims self), [])] (h ! e)])"
  using assms
  by (simp add: TwoEncodersCell_get_init_states_def addInput_eq)

lemma TwoEncodersCell_init_eq:
  assumes "e < length h"
  shows "TwoEncodersCell_init sizes (Some e) num_inputs num_outputs given dirs h =
     Inr (\<lparr>cls = TwoEncodersCell, ext_builder = Some e, builder = length h,
           num_expected_inputs = num_inputs, num_expected_outputs = num_outputs,
           state_dims = sizes,
           cname = Some (case given of None \<Rightarrow> ''TwoEncCell'' | Some n \<Rightarrow> n),
           init_states = Some [AutoName (b_counter (h ! e)), AutoName (Suc (b_counter (h ! e)))],
           directives = dict_update [] dirs,
           encoder = Some (length h, Name ''Custom'')\<rparr>,
          (h @ [two_encoders_private_builder sizes])
            [e := with_inputs [(take 1 sizes, []), (drop 1 sizes, [])] (h ! e)])"
proof -
  let ?h1 = "h @ [\<lparr>b_scope = ''Cell'', b_nodes = [], b_counter = 0\<rparr>]"
  let ?self = "\<lparr>cls = TwoEncodersCell, ext_builder = Some e, builder = length h,
       num_expected_inputs = num_inputs, num_expected_outputs = num_outputs,
       state_dims = sizes,
       cname = Some (case given of None \<Rightarrow> ''TwoEncCell'' | Some n \<Rightarrow> n),
       init_states = None, directives = dict_update [] dirs, encoder = None\<rparr>"
  have enc: "TwoEncodersCell_declare_cell_encoder ?self ?h1 =
      Inr ((length h, Name ''Custom''), h @ [two_encoders_private_builder sizes])"
    using declare_cell_encoder_eq [of ?self ?h1 "''Cell''"]
    by (simp add: two_encoders_private_builder_def)
  have ini: "TwoEncodersCell_get_init_states (?self\<lparr>encoder := Some (length h, Name ''Custom'')\<rparr>)
        (h @ [two_encoders_private_builder sizes]) =
      Inr ([AutoName (b_counter (h ! e)), AutoName (Suc (b_counter (h ! e)))],
           ?self\<lparr>encoder := Some (length h, Name ''Custom''),
                  init_states := Some [AutoName (b_counter (h ! e)), AutoName (Suc (b_counter (h ! e)))]\<rparr>,
           (h @ [two_encoders_private_builder sizes])
             [e := with_inputs [(take 1 sizes, []), (drop 1 sizes, [])] (h ! e)])"
    using assms
      TwoEncodersCell_get_init_states_eq
        [of "?self\<lparr>encoder := Some (length h, Name ''Custom'')\<rparr>" e
            "h @ [two_encoders_private_builder sizes]"]
    by (simp add: nth_append)
  show ?thesis
    unfolding TwoEncodersCell_init_def CustomCell_init_eq update_directives_def
    using enc ini by simp
qed

lemma TwoEncodersCell_init_None:
  "TwoEncodersCell_init sizes None num_inputs num_outputs given dirs h = Inl AttributeError"
proof -
  let ?h1 = "h @ [\<lparr>b_scope = ''Cell'', b_nodes = [], b_counter = 0\<rparr>]"
  let ?self = "\<lparr>cls = TwoEncodersCell, ext_builder = None, builder = length h,
       num_expected_inputs = num_inputs, num_expected_outputs = num_outputs,
       state_dims = sizes,
       cname = Some (case given of None \<Rightarrow> ''TwoEncCell'' | Some n \<Rightarrow> n),
       init_states = None, directives = dict_update [] dirs, encoder = None\<rparr>"
  have enc: "TwoEncodersCell_declare_cell_encoder ?self ?h1 =
      Inr ((length h, Name ''Custom''), h @ [two_encoders_private_builder sizes])"
    using declare_cell_encoder_eq [of ?self ?h1 "''Cell''"]
    by (simp add: two_encoders_private_builder_def)
  show ?thesis
    unfolding TwoEncodersCell_init_def CustomCell_init_eq update_directives_def
    using enc by (simp add: TwoEncodersCell_get_init_states_def)
qed

text \<open>
  \<open>NormalTriLCell.__init__\<close> raises at the assignment to \<open>self.name\<close>, whatever its
  arguments; the two lemmas after it give what the methods of the class do on an object
  of the class: \<open>declare_cell_encoder\<close> on a fresh private builder, and
  \<open>get_init_states\<close> on a builder of the store.
\<close>

lemma NormalTriLCell_init_raises:
  "NormalTriLCell_init sizes num_inputs given dirs h = Inl AttributeError"
  by (simp add: NormalTriLCell_init_def CustomCell_init_eq set_name_def)

lemma NormalTriLCell_declare_cell_encoder_eq:
  assumes "builder self < length h"
    and "h ! builder self = \<lparr>b_scope = sc, b_nodes = [], b_counter = 0\<rparr>"
  shows "NormalTriLCell_declare_cell_encoder self h =
     Inr ((builder self, Name ''NormalTriLCell''),
          h[builder self := \<lparr>b_scope = sc,
              b_nodes = [(Name ''NormalTriLCell'',
                          PlainNode (plain_node NormalTriLNode (state_dims self) 2 []))],
              b_counter = 0\<rparr>])"
  using assms
  by (simp add: NormalTriLCell_declare_cell_encoder_def addInner_def Let_def)

lemma get_init_states_NormalTriLCell_eq:
  assumes "cls self = NormalTriLCell" and "e < length h"
  shows "get_init_states self (Some e) h =
     Inr ([AutoName (b_counter (h ! e))],
          h[e := with_inputs [(state_dims self, directives self)] (h ! e)])"
  using assms by (simp add: get_init_states_def addInput_eq)

section \<open>Calling a cell with bare arguments\<close>





section \<open>Properties of the construction of a cell\<close>

lemma get_custom_private:
  "e < length h \<Longrightarrow>
   get_custom (length h, Name ''Custom'') ((h @ [two_encoders_private_builder sizes])[e := x]) =
     Some (two_encoders_step_graph sizes)"
  by (simp add: get_custom_def nth_append two_encoders_private_builder_def)

text \<open>
  Claim C9.  Every construction of a \<open>TwoEncodersCell\<close> on an external builder of the
  store succeeds, and the custom node it builds has three islots and two oslots whatever
  \<open>num_inputs\<close> and \<open>num_outputs\<close> are, while the cell records those two arguments as its
  expected numbers of inputs and outputs: as soon as \<open>num_inputs\<close> is not 3 or
  \<open>num_outputs\<close> is not 2, the declared numbers disagree with the node that was built.
\<close>

theorem TwoEncodersCell_encoder_slots_hard_coded:
  assumes "e < length h"
  shows "\<exists>c h' cust.
     TwoEncodersCell_init sizes (Some e) num_inputs num_outputs given dirs h = Inr (c, h') \<and>
     encoder c = Some (builder c, Name ''Custom'') \<and>
     get_custom (builder c, Name ''Custom'') h' = Some cust \<and>
     c_num_inputs cust = 3 \<and> c_num_outputs cust = 2 \<and>
     num_expected_inputs c = num_inputs \<and> num_expected_outputs c = num_outputs \<and>
     (num_inputs \<noteq> 3 \<or> num_outputs \<noteq> 2 \<longrightarrow>
        (num_expected_inputs c, num_expected_outputs c) \<noteq>
        (int (c_num_inputs cust), int (c_num_outputs cust)))"
proof -
  have "c_num_inputs (two_encoders_step_graph sizes) = 3"
    and "c_num_outputs (two_encoders_step_graph sizes) = 2"
    by (simp_all add: two_encoders_step_graph_def)
  then show ?thesis
    using TwoEncodersCell_init_eq [OF assms, of sizes num_inputs num_outputs given dirs]
      get_custom_private [OF assms, of sizes]
    by auto
qed

text \<open>A cell declared with five inputs and one output still gets the node of 3 and 2.\<close>

theorem TwoEncodersCell_encoder_slots_hard_coded_witness:
  "\<exists>c h' cust.
     TwoEncodersCell_init [[3], [4]] (Some 0) 5 1 None []
       [\<lparr>b_scope = ''Main'', b_nodes = [], b_counter = 0\<rparr>] = Inr (c, h') \<and>
     get_custom (builder c, Name ''Custom'') h' = Some cust \<and>
     c_num_inputs cust = 3 \<and> c_num_outputs cust = 2 \<and>
     num_expected_inputs c = 5 \<and> num_expected_outputs c = 1 \<and>
     (num_expected_inputs c, num_expected_outputs c) \<noteq>
       (int (c_num_inputs cust), int (c_num_outputs cust))"
proof -
  have "(0::nat) < length [\<lparr>b_scope = ''Main'', b_nodes = [], b_counter = 0\<rparr>]" by simp
  from TwoEncodersCell_encoder_slots_hard_coded [OF this, of "[[3], [4]]" 5 1 None "[]"]
  show ?thesis by auto
qed

lemma map_of_with_inputs_two:
  "map_of (b_nodes (with_inputs [(s1, d1), (s2, d2)] bld)) (AutoName (b_counter bld)) =
     Some (PlainNode (plain_node NormalInputNode s1 0 d1)) \<and>
   map_of (b_nodes (with_inputs [(s1, d1), (s2, d2)] bld)) (AutoName (Suc (b_counter bld))) =
     Some (PlainNode (plain_node NormalInputNode s2 0 d2))"
  by (simp add: update_conv')

text \<open>
  Claim C5, as the code has it.  When the constructor of \<open>TwoEncodersCell\<close> returns, the
  private builder already holds the committed step graph of \<open>declare_cell_encoder\<close>, and
  the external builder given to the constructor already holds the two state-producing
  input nodes, whose names are the cell's \<open>init_states\<close>.  The constructor of
  \<open>NormalTriLCell\<close> does not return: the assignment to \<open>self.name\<close> at line 189 raises
  \<open>AttributeError\<close> before \<open>declare_cell_encoder\<close> is reached at line 193, so no step
  graph is built and no cell exists.  Run on the object as line 188 leaves it, lines 191
  to 193 would have put the encoder node into the private builder.
\<close>

theorem construction_builds_step_graph_or_raises:
  assumes "e < length h"
  shows "(\<exists>c h'.
      TwoEncodersCell_init sizes (Some e) num_inputs num_outputs given dirs h = Inr (c, h') \<and>
      encoder c = Some (builder c, Name ''Custom'') \<and>
      h' ! builder c = two_encoders_private_builder sizes \<and>
      get_custom (builder c, Name ''Custom'') h' = Some (two_encoders_step_graph sizes) \<and>
      c_committed (two_encoders_step_graph sizes) \<and>
      init_states c = Some [AutoName (b_counter (h ! e)), AutoName (Suc (b_counter (h ! e)))] \<and>
      h' ! e = with_inputs [(take 1 sizes, []), (drop 1 sizes, [])] (h ! e) \<and>
      map_of (b_nodes (h' ! e)) (AutoName (b_counter (h ! e))) =
        Some (PlainNode (plain_node NormalInputNode (take 1 sizes) 0 [])) \<and>
      map_of (b_nodes (h' ! e)) (AutoName (Suc (b_counter (h ! e)))) =
        Some (PlainNode (plain_node NormalInputNode (drop 1 sizes) 0 []))) \<and>
    NormalTriLCell_init sizes num_inputs' given dirs h = Inl AttributeError \<and>
    (\<exists>self h1.
      CustomCell_init NormalTriLCell num_inputs' 1 None h = (self, h1) \<and>
      NormalTriLCell_declare_cell_encoder
          (update_directives (self\<lparr>state_dims := sizes\<rparr>) dirs) h1 =
        Inr ((length h, Name ''NormalTriLCell''),
             h @ [\<lparr>b_scope = ''Cell'',
                   b_nodes = [(Name ''NormalTriLCell'',
                               PlainNode (plain_node NormalTriLNode sizes 2 []))],
                   b_counter = 0\<rparr>]))"
proof (intro conjI)
  let ?h' = "(h @ [two_encoders_private_builder sizes])
            [e := with_inputs [(take 1 sizes, []), (drop 1 sizes, [])] (h ! e)]"
  have a: "?h' ! length h = two_encoders_private_builder sizes"
    using assms by (simp add: nth_append)
  have b: "?h' ! e = with_inputs [(take 1 sizes, []), (drop 1 sizes, [])] (h ! e)"
    using assms by simp
  have c: "c_committed (two_encoders_step_graph sizes)"
    by (simp add: two_encoders_step_graph_def)
  show "\<exists>c h'.
      TwoEncodersCell_init sizes (Some e) num_inputs num_outputs given dirs h = Inr (c, h') \<and>
      encoder c = Some (builder c, Name ''Custom'') \<and>
      h' ! builder c = two_encoders_private_builder sizes \<and>
      get_custom (builder c, Name ''Custom'') h' = Some (two_encoders_step_graph sizes) \<and>
      c_committed (two_encoders_step_graph sizes) \<and>
      init_states c = Some [AutoName (b_counter (h ! e)), AutoName (Suc (b_counter (h ! e)))] \<and>
      h' ! e = with_inputs [(take 1 sizes, []), (drop 1 sizes, [])] (h ! e) \<and>
      map_of (b_nodes (h' ! e)) (AutoName (b_counter (h ! e))) =
        Some (PlainNode (plain_node NormalInputNode (take 1 sizes) 0 [])) \<and>
      map_of (b_nodes (h' ! e)) (AutoName (Suc (b_counter (h ! e)))) =
        Some (PlainNode (plain_node NormalInputNode (drop 1 sizes) 0 []))"
    using TwoEncodersCell_init_eq [OF assms, of sizes num_inputs num_outputs given dirs]
      get_custom_private [OF assms, of sizes] a b c
      map_of_with_inputs_two [of "take 1 sizes" "[]" "drop 1 sizes" "[]" "h ! e"]
    by (simp del: with_inputs.simps)
next
  show "NormalTriLCell_init sizes num_inputs' given dirs h = Inl AttributeError"
    by (rule NormalTriLCell_init_raises)
next
  let ?self = "\<lparr>cls = NormalTriLCell, ext_builder = None, builder = length h,
       num_expected_inputs = num_inputs', num_expected_outputs = 1,
       state_dims = sizes, cname = None, init_states = None,
       directives = dict_update [] dirs, encoder = None\<rparr>"
  let ?h1 = "h @ [\<lparr>b_scope = ''Cell'', b_nodes = [], b_counter = 0\<rparr>]"
  have "NormalTriLCell_declare_cell_encoder ?self ?h1 =
        Inr ((length h, Name ''NormalTriLCell''),
             h @ [\<lparr>b_scope = ''Cell'',
                   b_nodes = [(Name ''NormalTriLCell'',
                               PlainNode (plain_node NormalTriLNode sizes 2 []))],
                   b_counter = 0\<rparr>])"
    using NormalTriLCell_declare_cell_encoder_eq [of ?self ?h1 "''Cell''"] by simp
  then show "\<exists>self h1.
      CustomCell_init NormalTriLCell num_inputs' 1 None h = (self, h1) \<and>
      NormalTriLCell_declare_cell_encoder
          (update_directives (self\<lparr>state_dims := sizes\<rparr>) dirs) h1 =
        Inr ((length h, Name ''NormalTriLCell''),
             h @ [\<lparr>b_scope = ''Cell'',
                   b_nodes = [(Name ''NormalTriLCell'',
                               PlainNode (plain_node NormalTriLNode sizes 2 []))],
                   b_counter = 0\<rparr>])"
    by (simp add: CustomCell_init_eq update_directives_def)
qed

text \<open>
  A \<open>TwoEncodersCell\<close> of the state sizes [3] and [4] on an empty external builder, and
  \<open>NormalTriLCell([[3]])\<close>.
\<close>

theorem construction_builds_step_graph_or_raises_witness:
  "(\<exists>c h'.
     TwoEncodersCell_init [[3], [4]] (Some 0) 3 2 None []
       [\<lparr>b_scope = ''Main'', b_nodes = [], b_counter = 0\<rparr>] = Inr (c, h') \<and>
     get_custom (builder c, Name ''Custom'') h' = Some (two_encoders_step_graph [[3], [4]]) \<and>
     init_states c = Some [AutoName 0, AutoName 1] \<and>
     b_nodes (h' ! 0) =
       [(AutoName 0, PlainNode (plain_node NormalInputNode [[3]] 0 [])),
        (AutoName 1, PlainNode (plain_node NormalInputNode [[4]] 0 []))]) \<and>
   NormalTriLCell_init [[3], [4]] 2 None []
     [\<lparr>b_scope = ''Main'', b_nodes = [], b_counter = 0\<rparr>] = Inl AttributeError"
proof -
  have "(0::nat) < length [\<lparr>b_scope = ''Main'', b_nodes = [], b_counter = 0\<rparr>]" by simp
  from construction_builds_step_graph_or_raises
    [OF this, of "[[3], [4]]" 3 2 None "[]" 2]
  show ?thesis by auto
qed





section \<open>Ownership of the private builder, sizes and the abstract contract\<close>

lemma map_of_with_inputs_Name:
  "map_of (b_nodes (with_inputs l bld)) (Name s) = map_of (b_nodes bld) (Name s)"
  by (induction l bld rule: with_inputs.induct) (simp_all add: update_conv')

lemma construct_Inr:
  assumes "args_in_store a h" and "construct a h = Inr (c, h')"
  shows "\<exists>e. e < length h \<and> cls c = TwoEncodersCell \<and> ext_builder c = Some e \<and>
    builder c = length h \<and> encoder c = Some (length h, Name ''Custom'') \<and>
    h' = (h @ [two_encoders_private_builder (state_dims c)])
           [e := with_inputs [(take 1 (state_dims c), []), (drop 1 (state_dims c), [])] (h ! e)]"
proof (cases a)
  case (TwoEncodersCell_args sizes ext num_inputs num_outputs given dirs)
  show ?thesis
  proof (cases ext)
    case None
    with TwoEncodersCell_args assms(2) show ?thesis
      by (simp add: TwoEncodersCell_init_None)
  next
    case (Some e)
    with TwoEncodersCell_args assms(1) have e: "e < length h" by simp
    show ?thesis
      using TwoEncodersCell_args Some assms(2) e
        TwoEncodersCell_init_eq [OF e, of sizes num_inputs num_outputs given dirs]
      by (auto simp del: with_inputs.simps)
  qed
next
  case (NormalTriLCell_args sizes num_inputs given dirs)
  then show ?thesis
    using assms(2) by (simp add: NormalTriLCell_init_raises)
qed

lemma with_inputs_two_neq: "with_inputs [x, y] bld \<noteq> bld"
proof
  assume "with_inputs [x, y] bld = bld"
  then have "b_counter (with_inputs [x, y] bld) = b_counter bld" by simp
  then show False by (simp only: with_inputs_counter) simp
qed

text \<open>
  Claim C7, as the code has it.  Two cells constructed one after the other, with whatever
  arguments, have distinct private builders: each is allocated by the constructor, at a
  reference that was not in the store before, so it is neither the external builder of
  its own cell nor that of the cell constructed before.  Each cell's encoder is the
  custom node \<open>Custom\<close> of its own private builder, and each private builder holds,
  when its constructor returns, the step graph of its own cell's state sizes and nothing
  else; after the second construction both step graphs are in place.  The private
  builder of the first cell is an attribute that a caller can read: constructing the
  second cell leaves it as it was unless the caller passes it as the external builder of
  the second cell, and then the second constructor registers its two initial-state nodes
  in it.  Registering initial states again, for either cell, changes the external builder
  of that cell only.
\<close>

theorem cells_own_distinct_private_builders:
  assumes "args_in_store a1 h" and "construct a1 h = Inr (c1, h1)"
    and "args_in_store a2 h1" and "construct a2 h1 = Inr (c2, h2)"
  shows "builder c1 \<noteq> builder c2 \<and>
    builder c1 = length h \<and> builder c2 = length h1 \<and>
    builder c1 < length h2 \<and> builder c2 < length h2 \<and>
    ext_builder c1 \<noteq> Some (builder c1) \<and> ext_builder c2 \<noteq> Some (builder c2) \<and>
    ext_builder c1 \<noteq> Some (builder c2) \<and>
    encoder c1 = Some (builder c1, Name ''Custom'') \<and>
    encoder c2 = Some (builder c2, Name ''Custom'') \<and>
    h1 ! builder c1 = two_encoders_private_builder (state_dims c1) \<and>
    h2 ! builder c2 = two_encoders_private_builder (state_dims c2) \<and>
    get_custom (builder c1, Name ''Custom'') h2 = Some (two_encoders_step_graph (state_dims c1)) \<and>
    get_custom (builder c2, Name ''Custom'') h2 = Some (two_encoders_step_graph (state_dims c2)) \<and>
    (ext_builder c2 \<noteq> Some (builder c1) \<longrightarrow> h2 ! builder c1 = h1 ! builder c1) \<and>
    (ext_builder c2 = Some (builder c1) \<longrightarrow>
       h2 ! builder c1 =
         with_inputs [(take 1 (state_dims c2), []), (drop 1 (state_dims c2), [])]
           (h1 ! builder c1) \<and>
       h2 ! builder c1 \<noteq> h1 ! builder c1) \<and>
    (\<exists>ns c1' h3.
       TwoEncodersCell_get_init_states c1 h2 = Inr (ns, c1', h3) \<and>
       h3 ! builder c1 = h2 ! builder c1 \<and> h3 ! builder c2 = h2 ! builder c2) \<and>
    (\<exists>ns c2' h3.
       TwoEncodersCell_get_init_states c2 h2 = Inr (ns, c2', h3) \<and>
       h3 ! builder c2 = h2 ! builder c2 \<and>
       (ext_builder c2 \<noteq> Some (builder c1) \<longrightarrow> h3 ! builder c1 = h2 ! builder c1))"
proof -
  obtain e1 where e1: "e1 < length h" "ext_builder c1 = Some e1" "builder c1 = length h"
      "encoder c1 = Some (length h, Name ''Custom'')"
      "h1 = (h @ [two_encoders_private_builder (state_dims c1)])
           [e1 := with_inputs [(take 1 (state_dims c1), []), (drop 1 (state_dims c1), [])] (h ! e1)]"
    using construct_Inr [OF assms(1,2)] by blast
  obtain e2 where e2: "e2 < length h1" "ext_builder c2 = Some e2" "builder c2 = length h1"
      "encoder c2 = Some (length h1, Name ''Custom'')"
      "h2 = (h1 @ [two_encoders_private_builder (state_dims c2)])
           [e2 := with_inputs [(take 1 (state_dims c2), []), (drop 1 (state_dims c2), [])] (h1 ! e2)]"
    using construct_Inr [OF assms(3,4)] by blast
  have l1: "length h1 = Suc (length h)" using e1(5) by simp
  have l2: "length h2 = Suc (length h1)" using e2(5) by simp
  have p1: "h1 ! length h = two_encoders_private_builder (state_dims c1)"
    using e1(1) by (simp add: e1(5) nth_append)
  have p2: "h2 ! length h1 = two_encoders_private_builder (state_dims c2)"
    using e2(1) by (simp add: e2(5) nth_append)
  have k: "h2 ! length h = (if e2 = length h
        then with_inputs [(take 1 (state_dims c2), []), (drop 1 (state_dims c2), [])] (h1 ! length h)
        else h1 ! length h)"
    using l1 e2(1) by (simp add: e2(5) nth_append nth_list_update del: with_inputs.simps)
  have n: "map_of (b_nodes (h2 ! length h)) (Name ''Custom'') =
      Some (CustomNode (two_encoders_step_graph (state_dims c1)))"
    by (simp add: k p1 map_of_with_inputs_Name two_encoders_private_builder_def
        del: with_inputs.simps)
  have g1: "get_custom (length h, Name ''Custom'') h2 =
      Some (two_encoders_step_graph (state_dims c1))"
    using l1 l2 n by (simp add: get_custom_def)
  have g2: "get_custom (length h1, Name ''Custom'') h2 =
      Some (two_encoders_step_graph (state_dims c2))"
    using l2 p2 by (simp add: get_custom_def two_encoders_private_builder_def)
  have a: "e2 = length h \<longrightarrow> h2 ! length h \<noteq> h1 ! length h"
    by (simp add: k with_inputs_two_neq del: with_inputs.simps)
  have q1: "e1 < length h2" using e1(1) l1 l2 by simp
  have q2: "e2 < length h2" using e2(1) l2 by simp
  have i1: "\<exists>ns c1' h3.
       TwoEncodersCell_get_init_states c1 h2 = Inr (ns, c1', h3) \<and>
       h3 ! length h = h2 ! length h \<and> h3 ! length h1 = h2 ! length h1"
    using TwoEncodersCell_get_init_states_eq [OF e1(2) q1] e1(1) l1
    by (simp del: with_inputs.simps)
  have i2: "\<exists>ns c2' h3.
       TwoEncodersCell_get_init_states c2 h2 = Inr (ns, c2', h3) \<and>
       h3 ! length h1 = h2 ! length h1 \<and>
       (e2 \<noteq> length h \<longrightarrow> h3 ! length h = h2 ! length h)"
    using TwoEncodersCell_get_init_states_eq [OF e2(2) q2] e2(1)
    by (simp del: with_inputs.simps)
  show ?thesis
    using e1(1-4) e2(1-4) l1 l2 p1 p2 k g1 g2 a i1 i2
    by (simp del: with_inputs.simps)
qed

text \<open>
  Two cells of the same state sizes on the same external builder: private builders at
  the references 1 and 2, with equal contents.  And a second cell that is given the
  private builder of the first as its external builder: the two initial-state nodes of
  the second cell are then in the private builder of the first.
\<close>

theorem cells_own_distinct_private_builders_witness:
  "(\<exists>c1 h1 c2 h2.
     construct (TwoEncodersCell_args [[3], [4]] (Some 0) 3 2 None [])
       [\<lparr>b_scope = ''Main'', b_nodes = [], b_counter = 0\<rparr>] = Inr (c1, h1) \<and>
     construct (TwoEncodersCell_args [[3], [4]] (Some 0) 3 2 None []) h1 = Inr (c2, h2) \<and>
     state_dims c1 = state_dims c2 \<and>
     builder c1 = 1 \<and> builder c2 = 2 \<and> ext_builder c2 = Some 0 \<and>
     h2 ! builder c1 = h1 ! builder c1 \<and>
     h2 ! builder c1 = two_encoders_private_builder [[3], [4]] \<and>
     h2 ! builder c2 = two_encoders_private_builder [[3], [4]]) \<and>
   (\<exists>c1 h1 c2 h2.
     construct (TwoEncodersCell_args [[3], [4]] (Some 0) 3 2 None [])
       [\<lparr>b_scope = ''Main'', b_nodes = [], b_counter = 0\<rparr>] = Inr (c1, h1) \<and>
     construct (TwoEncodersCell_args [[5], [6]] (Some 1) 3 2 None []) h1 = Inr (c2, h2) \<and>
     builder c1 = 1 \<and> builder c2 = 2 \<and> ext_builder c2 = Some (builder c1) \<and>
     h2 ! builder c1 =
       with_inputs [([[5]], []), ([[6]], [])] (two_encoders_private_builder [[3], [4]]) \<and>
     get_custom (builder c1, Name ''Custom'') h2 = Some (two_encoders_step_graph [[3], [4]]) \<and>
     get_custom (builder c2, Name ''Custom'') h2 = Some (two_encoders_step_graph [[5], [6]]))"
proof (rule conjI)
  let ?a = "TwoEncodersCell_args [[3], [4]] (Some 0) 3 2 None []"
  let ?h = "[\<lparr>b_scope = ''Main'', b_nodes = [], b_counter = 0\<rparr>]"
  have v1: "args_in_store ?a ?h" by simp
  obtain c1 h1 where i1: "construct ?a ?h = Inr (c1, h1)"
    and h1: "length h1 = 2"
    and d1: "state_dims c1 = [[3], [4]]"
    using TwoEncodersCell_init_eq [of 0 ?h "[[3], [4]]" 3 2 None "[]"]
    by (simp del: with_inputs.simps)
  have v2: "args_in_store ?a h1" using h1 by simp
  obtain c2 h2 where i2: "construct ?a h1 = Inr (c2, h2)"
    and d2: "state_dims c2 = [[3], [4]]"
    and e2: "ext_builder c2 = Some 0"
    using TwoEncodersCell_init_eq [of 0 h1 "[[3], [4]]" 3 2 None "[]"] h1
    by (simp del: with_inputs.simps)
  from cells_own_distinct_private_builders [OF v1 i1 v2 i2] i1 i2 h1 d1 d2 e2
  show "\<exists>c1 h1 c2 h2.
     construct (TwoEncodersCell_args [[3], [4]] (Some 0) 3 2 None [])
       [\<lparr>b_scope = ''Main'', b_nodes = [], b_counter = 0\<rparr>] = Inr (c1, h1) \<and>
     construct (TwoEncodersCell_args [[3], [4]] (Some 0) 3 2 None []) h1 = Inr (c2, h2) \<and>
     state_dims c1 = state_dims c2 \<and>
     builder c1 = 1 \<and> builder c2 = 2 \<and> ext_builder c2 = Some 0 \<and>
     h2 ! builder c1 = h1 ! builder c1 \<and>
     h2 ! builder c1 = two_encoders_private_builder [[3], [4]] \<and>
     h2 ! builder c2 = two_encoders_private_builder [[3], [4]]"
    by (auto simp del: with_inputs.simps)
next
  let ?a = "TwoEncodersCell_args [[3], [4]] (Some 0) 3 2 None []"
  let ?a' = "TwoEncodersCell_args [[5], [6]] (Some 1) 3 2 None []"
  let ?h = "[\<lparr>b_scope = ''Main'', b_nodes = [], b_counter = 0\<rparr>]"
  have v1: "args_in_store ?a ?h" by simp
  obtain c1 h1 where i1: "construct ?a ?h = Inr (c1, h1)"
    and h1: "length h1 = 2"
    and d1: "state_dims c1 = [[3], [4]]"
    using TwoEncodersCell_init_eq [of 0 ?h "[[3], [4]]" 3 2 None "[]"]
    by (simp del: with_inputs.simps)
  have v2: "args_in_store ?a' h1" using h1 by simp
  obtain c2 h2 where i2: "construct ?a' h1 = Inr (c2, h2)"
    and d2: "state_dims c2 = [[5], [6]]"
    and e2: "ext_builder c2 = Some 1"
    using TwoEncodersCell_init_eq [of 1 h1 "[[5], [6]]" 3 2 None "[]"] h1
    by (simp del: with_inputs.simps)
  note t = cells_own_distinct_private_builders [OF v1 i1 v2 i2]
  from t have b1': "builder c1 = length ?h" and b2': "builder c2 = length h1"
    and p1': "h1 ! builder c1 = two_encoders_private_builder (state_dims c1)"
    and g1': "get_custom (builder c1, Name ''Custom'') h2 =
        Some (two_encoders_step_graph (state_dims c1))"
    and g2': "get_custom (builder c2, Name ''Custom'') h2 =
        Some (two_encoders_step_graph (state_dims c2))"
    and al: "ext_builder c2 = Some (builder c1) \<longrightarrow>
       h2 ! builder c1 =
         with_inputs [(take 1 (state_dims c2), []), (drop 1 (state_dims c2), [])]
           (h1 ! builder c1) \<and>
       h2 ! builder c1 \<noteq> h1 ! builder c1"
    by blast+
  have b1: "builder c1 = 1" using b1' by simp
  have b2: "builder c2 = 2" using b2' h1 by simp
  have p1: "h1 ! Suc 0 = two_encoders_private_builder [[3], [4]]"
    using p1' b1 d1 by simp
  have s: "h2 ! builder c1 =
       with_inputs [([[5]], []), ([[6]], [])] (two_encoders_private_builder [[3], [4]])"
    using al e2 b1 p1 by (simp add: d2 del: with_inputs.simps)
  have g1: "get_custom (builder c1, Name ''Custom'') h2 = Some (two_encoders_step_graph [[3], [4]])"
    using g1' d1 by simp
  have g2: "get_custom (builder c2, Name ''Custom'') h2 = Some (two_encoders_step_graph [[5], [6]])"
    using g2' d2 by simp
  have e: "ext_builder c2 = Some (builder c1)" using e2 b1 by simp
  show "\<exists>c1 h1 c2 h2.
     construct (TwoEncodersCell_args [[3], [4]] (Some 0) 3 2 None [])
       [\<lparr>b_scope = ''Main'', b_nodes = [], b_counter = 0\<rparr>] = Inr (c1, h1) \<and>
     construct (TwoEncodersCell_args [[5], [6]] (Some 1) 3 2 None []) h1 = Inr (c2, h2) \<and>
     builder c1 = 1 \<and> builder c2 = 2 \<and> ext_builder c2 = Some (builder c1) \<and>
     h2 ! builder c1 =
       with_inputs [([[5]], []), ([[6]], [])] (two_encoders_private_builder [[3], [4]]) \<and>
     get_custom (builder c1, Name ''Custom'') h2 = Some (two_encoders_step_graph [[3], [4]]) \<and>
     get_custom (builder c2, Name ''Custom'') h2 = Some (two_encoders_step_graph [[5], [6]])"
    using i1 i2 b1 b2 e s g1 g2 by blast
qed

text \<open>
  Claim C7 does not hold as stated: nothing keeps a private builder from being the
  external builder of another cell.  A second cell constructed on \<open>c1.builder\<close> registers
  its two initial-state nodes there, next to the step graph of the first cell.
\<close>

theorem private_builder_shared_as_external_builder:
  "\<exists>c1 h1 c2 h2.
     construct (TwoEncodersCell_args [[3], [4]] (Some 0) 3 2 None [])
       [\<lparr>b_scope = ''Main'', b_nodes = [], b_counter = 0\<rparr>] = Inr (c1, h1) \<and>
     construct (TwoEncodersCell_args [[3], [4]] (Some (builder c1)) 3 2 None []) h1 =
       Inr (c2, h2) \<and>
     ext_builder c2 = Some (builder c1) \<and>
     b_nodes (h1 ! builder c1) =
       [(Name ''Custom'', CustomNode (two_encoders_step_graph [[3], [4]]))] \<and>
     b_nodes (h2 ! builder c1) =
       [(Name ''Custom'', CustomNode (two_encoders_step_graph [[3], [4]])),
        (AutoName 0, PlainNode (plain_node NormalInputNode [[3]] 0 [])),
        (AutoName 1, PlainNode (plain_node NormalInputNode [[4]] 0 []))]"
proof -
  let ?h = "[\<lparr>b_scope = ''Main'', b_nodes = [], b_counter = 0\<rparr>]"
  let ?h1 = "[with_inputs [([[3]], []), ([[4]], [])] \<lparr>b_scope = ''Main'', b_nodes = [], b_counter = 0\<rparr>,
       two_encoders_private_builder [[3], [4]]]"
  have a: "(Suc 0) < length ?h1" by simp
  show ?thesis
    using TwoEncodersCell_init_eq [of 0 ?h "[[3], [4]]" 3 2 None "[]"]
      TwoEncodersCell_init_eq [OF a, of "[[3], [4]]" 3 2 None "[]"]
    by (simp add: two_encoders_private_builder_def)
qed

lemma TwoEncodersCell_call_Inr_same:
  "TwoEncodersCell_call encoder_call inputs state = Inr r \<Longrightarrow> fst r = snd r"
  by (auto simp: TwoEncodersCell_call_def split: sum.splits prod.splits)

lemma construct_class:
  assumes "args_in_store a h" and "construct a h = Inr (c, h')"
  shows "cls c \<noteq> CustomCell"
  using construct_Inr [OF assms] by auto

text \<open>
  Claim C4.  \<open>output_size\<close> is \<open>state_size\<close> for every cell; for the two concrete
  classes, and so for every constructed cell, both are \<open>state_dims\<close>.
  \<open>NormalTriLCell.__call__\<close>, the cell of a single state component, returns exactly
  when its encoder returns, and then the pair \<open>(output, output)\<close>; the pair that
  \<open>TwoEncodersCell.__call__\<close> returns has two equal components as well.
\<close>

theorem output_size_is_state_size:
  "output_size c = state_size c \<and>
   (cls c \<noteq> CustomCell \<longrightarrow>
      state_size c = Inr (state_dims c) \<and> output_size c = Inr (state_dims c)) \<and>
   (args_in_store a h \<and> construct a h = Inr (c', h') \<longrightarrow>
      state_size c' = Inr (state_dims c') \<and> output_size c' = Inr (state_dims c')) \<and>
   (NormalTriLCell_call node_call inputs islot_to_itensor = Inr r \<longleftrightarrow>
      (\<exists>out. node_call inputs islot_to_itensor = Inr out \<and> r = (out, out))) \<and>
   (TwoEncodersCell_call encoder_call inputs' state = Inr r2 \<longrightarrow> fst r2 = snd r2)"
proof (intro conjI impI)
  show "output_size c = state_size c"
    by (simp add: output_size_def state_size_def)
  show "state_size c = Inr (state_dims c)" if "cls c \<noteq> CustomCell"
    using that by (cases "cls c") (simp_all add: state_size_def)
  show "output_size c = Inr (state_dims c)" if "cls c \<noteq> CustomCell"
    using that by (cases "cls c") (simp_all add: output_size_def)
  show "state_size c' = Inr (state_dims c')"
    if "args_in_store a h \<and> construct a h = Inr (c', h')"
    using construct_class [of a h c' h'] that
    by (cases "cls c'") (simp_all add: state_size_def)
  show "output_size c' = Inr (state_dims c')"
    if "args_in_store a h \<and> construct a h = Inr (c', h')"
    using construct_class [of a h c' h'] that
    by (cases "cls c'") (simp_all add: output_size_def)
  show "NormalTriLCell_call node_call inputs islot_to_itensor = Inr r \<longleftrightarrow>
      (\<exists>out. node_call inputs islot_to_itensor = Inr out \<and> r = (out, out))"
    by (cases "node_call inputs islot_to_itensor") (auto simp: NormalTriLCell_call_def)
  show "fst r2 = snd r2" if "TwoEncodersCell_call encoder_call inputs' state = Inr r2"
    using that by (rule TwoEncodersCell_call_Inr_same)
qed

text \<open>
  A \<open>TwoEncodersCell\<close> of the state sizes [3] and [4] with a call whose encoder returns
  10 and 20, and the call of a \<open>NormalTriLCell\<close> whose encoder returns 7.
\<close>

theorem output_size_is_state_size_witness:
  "(\<exists>c h'.
      construct (TwoEncodersCell_args [[3], [4]] (Some 0) 3 2 None [])
        [\<lparr>b_scope = ''Main'', b_nodes = [], b_counter = 0\<rparr>] = Inr (c, h') \<and>
      cls c \<noteq> CustomCell \<and>
      state_size c = Inr [[3], [4]] \<and> output_size c = Inr [[3], [4]] \<and>
      output_size c = state_size c) \<and>
   NormalTriLCell_call (\<lambda>inputs islot_to_itensor. Inr (Tensor (7::nat)))
     (Tensor 1) (Tensor 2) = Inr (Tensor 7, Tensor 7) \<and>
   (\<exists>r. TwoEncodersCell_call (\<lambda>m. Inr (PySeq [Tensor 10, Tensor 20]))
          (Tensor 5) (PySeq [Tensor 1, Tensor (2::nat)]) = Inr r \<and> fst r = snd r)"
proof -
  let ?h = "[\<lparr>b_scope = ''Main'', b_nodes = [], b_counter = 0\<rparr>]"
  let ?a2 = "TwoEncodersCell_args [[3], [4]] (Some 0) 3 2 None []"
  let ?enc = "\<lambda>m :: (nat \<times> nat pyval) list. Inr (PySeq [Tensor 10, Tensor (20::nat)]) :: error + nat pyval"
  obtain c2 h2 where i2: "construct ?a2 ?h = Inr (c2, h2)" and d2: "state_dims c2 = [[3], [4]]"
    and k2: "cls c2 = TwoEncodersCell"
    using TwoEncodersCell_init_eq [of 0 ?h "[[3], [4]]" 3 2 None "[]"] by simp
  have v2: "args_in_store ?a2 ?h" by simp
  have call: "TwoEncodersCell_call ?enc (Tensor 5) (PySeq [Tensor 1, Tensor 2]) =
      Inr (Tensor 10, Tensor 10)"
    by (simp add: TwoEncodersCell_call_def islot_to_itensor_eq unpack_pair_def py_iter_def)
  from output_size_is_state_size
    [of c2 ?a2 ?h c2 h2 "\<lambda>inputs islot_to_itensor. Inr (Tensor (7::nat))" "Tensor 1" "Tensor 2"
        "(Tensor 7, Tensor 7)" ?enc "Tensor 5" "PySeq [Tensor 1, Tensor 2]"
        "(Tensor 10, Tensor 10)"]
    i2 d2 k2 v2 call
  show ?thesis by auto
qed

text \<open>
  Claim C6, as the code has it.  On an object of the base class \<open>CustomCell\<close>,
  \<open>state_size\<close>, \<open>output_size\<close> and \<open>get_init_states\<close> raise \<open>NotImplementedError\<close>.
  \<open>state_size\<close> and \<open>output_size\<close> raise it for the base class only: both subclasses
  override them.  \<open>get_init_states\<close> raises it for every class but \<open>NormalTriLCell\<close>:
  \<open>TwoEncodersCell\<close> defines \<open>_get_init_states\<close> and inherits \<open>get_init_states\<close>.
\<close>

theorem NotImplementedError_unless_overridden:
  "(cls c = CustomCell \<longrightarrow>
      state_size c = Inl NotImplementedError \<and>
      output_size c = Inl NotImplementedError \<and>
      get_init_states c ext h = Inl NotImplementedError) \<and>
   (state_size c = Inl NotImplementedError \<longleftrightarrow> cls c = CustomCell) \<and>
   (output_size c = Inl NotImplementedError \<longleftrightarrow> cls c = CustomCell) \<and>
   (get_init_states c ext h = Inl NotImplementedError \<longleftrightarrow> cls c \<noteq> NormalTriLCell)"
proof -
  have "get_init_states c ext h \<noteq> Inl NotImplementedError" if "cls c = NormalTriLCell"
    using that
    by (auto simp: get_init_states_def addInput_def Let_def split: option.splits)
  then show ?thesis
    by (cases "cls c") (auto simp: state_size_def output_size_def get_init_states_def)
qed

text \<open>An object of the base class itself.\<close>

theorem NotImplementedError_unless_overridden_witness:
  "cls (fst (CustomCell_init CustomCell 3 2 None [])) = CustomCell \<and>
   state_size (fst (CustomCell_init CustomCell 3 2 None [])) = Inl NotImplementedError \<and>
   output_size (fst (CustomCell_init CustomCell 3 2 None [])) = Inl NotImplementedError \<and>
   get_init_states (fst (CustomCell_init CustomCell 3 2 None [])) (Some 0)
     [\<lparr>b_scope = ''Main'', b_nodes = [], b_counter = 0\<rparr>] = Inl NotImplementedError"
  using NotImplementedError_unless_overridden
    [of "fst (CustomCell_init CustomCell 3 2 None [])" "Some 0"
        "[\<lparr>b_scope = ''Main'', b_nodes = [], b_counter = 0\<rparr>]"]
  by (simp add: CustomCell_init_eq)

text \<open>
  Claim C6 does not hold as stated: \<open>TwoEncodersCell\<close> is a concrete class that does not
  define \<open>get_init_states\<close>; calling it on a constructed cell raises
  \<open>NotImplementedError\<close>.
\<close>

theorem TwoEncodersCell_get_init_states_not_defined:
  "\<exists>c h'.
     TwoEncodersCell_init [[3], [4]] (Some 0) 3 2 None []
       [\<lparr>b_scope = ''Main'', b_nodes = [], b_counter = 0\<rparr>] = Inr (c, h') \<and>
     cls c = TwoEncodersCell \<and>
     get_init_states c (Some 0) h' = Inl NotImplementedError"
  by (simp add: TwoEncodersCell_init_eq get_init_states_def)

end
